theory Spec2Isabelle
  imports
    Complex_Main
    "HOL-Library.Multiset"
    "HOL-Library.Sublist"
    "HOL-Library.Char_ord"
    "HOL-Library.List_Lexorder"
begin

section \<open>Conventions of the embedding\<close>

text \<open>
  The development embeds three modules of the repository:
  \<^verbatim>\<open>src/services/pregnancy-safety-engine.js\<close>, \<^verbatim>\<open>src/services/pregnancy-interaction-checker.js\<close>
  and the risk calculator (\<^verbatim>\<open>pregnancy-risk-calculator\<close>), together with the two validators
  of \<^verbatim>\<open>utils/validators\<close> they call.

  \<^item> A gestational week is a JavaScript number holding an integer; it is an \<open>int\<close> here.
    Fractional weeks and \<open>NaN\<close> are outside the model.
  \<^item> Scores are JavaScript numbers. The arithmetic on them is carried out exactly, over
    \<open>rat\<close>; the binary rounding of the intermediate products (\<open>1.2\<close>, \<open>0.6\<close>, ...) is not
    modelled. \<open>Math.round\<close> rounds halves upwards.
  \<^item> An exception is a value \<open>Inl e\<close> of the sum type \<open>error + 'a\<close>.
  \<^item> An optional property of an object is an \<open>option\<close>; \<open>None\<close> is \<open>undefined\<close>.
  \<^item> Object tables are association lists searched on their own keys.
  \<^item> Names are ASCII strings.
\<close>

datatype error =
    INVALID_WEEK int                \<comment> \<open>\<open>validateWeek\<close>: \<open>createError(ERROR_CODES.INVALID_WEEK, ...)\<close>\<close>
  | InvalidPregnancyWeek int        \<comment> \<open>\<open>getTrimester\<close>: \<open>Invalid pregnancy week: w. Must be between 1-40.\<close>\<close>
  | MEDICATION_NOT_FOUND            \<comment> \<open>\<open>validateMedication\<close>\<close>
  | InvalidFDACategory string       \<comment> \<open>\<open>calculateRiskScore\<close>: \<open>Invalid FDA category: c\<close>\<close>
  | MedicationNameRequired          \<comment> \<open>\<open>checkMedicationSafety\<close>: name missing or not a string\<close>
  | NonEmptyArrayRequired           \<comment> \<open>\<open>Medication names must be a non-empty array\<close>\<close>
  | TypeError                       \<comment> \<open>a method call on \<open>undefined\<close>\<close>

section \<open>Validators\<close>

definition validateWeek :: "int \<Rightarrow> error + bool" where
  "validateWeek week = (if week < 1 \<or> week > 45 then Inl (INVALID_WEEK week) else Inr True)"

section \<open>Gestation calendar (pregnancy-safety-engine)\<close>

record trimesterDef =
  name :: string
  weeks :: "int \<times> int"
  description :: string
  criticalDevelopment :: "string list"
  riskMultiplier :: rat

record trimester = trimesterDef +
  number :: nat
  week :: int

definition FIRST :: trimesterDef where
  "FIRST = \<lparr> name = ''1st Trimester'', weeks = (1, 12),
     description = ''Organ formation - HIGHEST RISK period'',
     criticalDevelopment = [''Neural tube'', ''Heart'', ''Limbs'', ''Eyes'', ''Ears''],
     riskMultiplier = 3 / 2 \<rparr>"

definition SECOND :: trimesterDef where
  "SECOND = \<lparr> name = ''2nd Trimester'', weeks = (13, 27),
     description = ''Growth phase - Moderate risk'',
     criticalDevelopment = [''Brain development'', ''Bone growth'', ''Organ maturation''],
     riskMultiplier = 1 \<rparr>"

definition THIRD :: trimesterDef where
  "THIRD = \<lparr> name = ''3rd Trimester'', weeks = (28, 40),
     description = ''Preparation for birth - Focus on maternal/neonatal effects'',
     criticalDevelopment = [''Final organ maturation'', ''Weight gain'', ''Lung development''],
     riskMultiplier = 6 / 5 \<rparr>"

text \<open>The object spread \<^verbatim>\<open>{ ...TRIMESTERS.X, number: n, week: w }\<close>.\<close>

definition spreadTrimester :: "trimesterDef \<Rightarrow> nat \<Rightarrow> int \<Rightarrow> trimester" where
  "spreadTrimester d n w = trimesterDef.extend d \<lparr> number = n, week = w \<rparr>"

definition getTrimester :: "int \<Rightarrow> error + trimester" where
  "getTrimester weekOfPregnancy =
     (case validateWeek weekOfPregnancy of
        Inl e \<Rightarrow> Inl e
      | Inr _ \<Rightarrow>
          if weekOfPregnancy \<ge> fst (weeks FIRST) \<and> weekOfPregnancy \<le> snd (weeks FIRST)
            then Inr (spreadTrimester FIRST 1 weekOfPregnancy)
          else if weekOfPregnancy \<ge> fst (weeks SECOND) \<and> weekOfPregnancy \<le> snd (weeks SECOND)
            then Inr (spreadTrimester SECOND 2 weekOfPregnancy)
          else if weekOfPregnancy \<ge> fst (weeks THIRD) \<and> weekOfPregnancy \<le> snd (weeks THIRD)
            then Inr (spreadTrimester THIRD 3 weekOfPregnancy)
          else Inl (InvalidPregnancyWeek weekOfPregnancy))"

record criticalPeriod =
  isCritical :: bool
  reason :: string
  developments :: "string list option"
  severity :: string
  criticalWeek :: "int option"

definition criticalWeeks :: "(int \<times> string \<times> string) list" where
  "criticalWeeks =
    [(3, ''Neural tube formation'', ''critical''),
     (4, ''Neural tube formation'', ''critical''),
     (5, ''Heart and limb development'', ''critical''),
     (6, ''Heart and limb development'', ''critical''),
     (7, ''Organ differentiation'', ''high''),
     (8, ''Organ differentiation'', ''high''),
     (37, ''Full term - prepare for labor'', ''moderate''),
     (38, ''Full term - prepare for labor'', ''moderate''),
     (39, ''Full term - prepare for labor'', ''moderate''),
     (40, ''Full term - prepare for labor'', ''moderate'')]"

definition isCriticalPeriod :: "int \<Rightarrow> error + criticalPeriod" where
  "isCriticalPeriod weekOfPregnancy =
     (case getTrimester weekOfPregnancy of
        Inl e \<Rightarrow> Inl e
      | Inr trimester \<Rightarrow>
          if number trimester = 1 then
            Inr \<lparr> isCritical = True,
                  reason = ''First trimester - organ formation period'',
                  developments = Some (criticalDevelopment trimester),
                  severity = ''high'',
                  criticalWeek = None \<rparr>
          else
            (case map_of criticalWeeks weekOfPregnancy of
               Some (r, s) \<Rightarrow>
                 Inr \<lparr> isCritical = True, reason = r, developments = None,
                       severity = s, criticalWeek = Some weekOfPregnancy \<rparr>
             | None \<Rightarrow>
                 Inr \<lparr> isCritical = False,
                       reason = ''Not in a specifically critical period'',
                       developments = None,
                       severity = ''normal'',
                       criticalWeek = None \<rparr>))"

section \<open>Medication records and the reference store\<close>

text \<open>
  A record of \<^verbatim>\<open>data/medications.json\<close>, with the properties the three modules read. The
  store itself is not part of the sources; every function that consults it takes it as its
  first argument \<open>db\<close>.
\<close>

record trimesterData =
  td_safe :: "bool option"
  td_risk :: "string option"
  td_warnings :: "string list option"
  td_alternatives :: "string list option"

record pregnancyCategoryData =
  fda :: "string option"
  trimester1 :: "trimesterData option"
  trimester2 :: "trimesterData option"
  trimester3 :: "trimesterData option"

record medication =
  med_name :: "string option"
  genericName :: "string option"
  brandNames :: "string list option"
  pregnancyCategory :: "pregnancyCategoryData option"

text \<open>A string property is truthy when it is present and not empty.\<close>

definition truthy :: "string option \<Rightarrow> bool" where
  "truthy s = (case s of None \<Rightarrow> False | Some x \<Rightarrow> x \<noteq> [])"

definition validateMedication :: "medication \<Rightarrow> error + bool" where
  "validateMedication medication =
     (if \<not> truthy (med_name medication) then Inl MEDICATION_NOT_FOUND
      else if pregnancyCategory medication = None then Inl MEDICATION_NOT_FOUND
      else Inr True)"

subsection \<open>Strings\<close>

text \<open>
  An upper-case ASCII letter becomes its lower-case letter, 32 code points further: the
  bit of weight 32, clear in \<open>A\<close> to \<open>Z\<close>, is set.
\<close>

definition toLowerChar :: "char \<Rightarrow> char" where
  "toLowerChar c =
     (if CHR ''A'' \<le> c \<and> c \<le> CHR ''Z''
      then (case c of Char b0 b1 b2 b3 b4 b5 b6 b7 \<Rightarrow> Char b0 b1 b2 b3 b4 True b6 b7)
      else c)"

definition toLowerCase :: "string \<Rightarrow> string" where
  "toLowerCase s = map toLowerChar s"

definition isWhiteSpace :: "char \<Rightarrow> bool" where
  "isWhiteSpace c = (c = CHR '' '' \<or> (9 \<le> (of_char c :: nat) \<and> (of_char c :: nat) \<le> 13))"

definition trim :: "string \<Rightarrow> string" where
  "trim s = rev (dropWhile isWhiteSpace (rev (dropWhile isWhiteSpace s)))"

subsection \<open>Lookup by generic name, name or brand name\<close>

definition matchesName :: "string \<Rightarrow> medication \<Rightarrow> bool" where
  "matchesName searchName med =
     (if truthy (genericName med) \<and> toLowerCase (the (genericName med)) = searchName then True
      else if truthy (med_name med) \<and> toLowerCase (the (med_name med)) = searchName then True
      else (case brandNames med of
              Some brands \<Rightarrow> list_ex (\<lambda>brand. toLowerCase brand = searchName) brands
            | None \<Rightarrow> False))"

definition findMedication :: "medication list \<Rightarrow> string \<Rightarrow> medication option" where
  "findMedication db medicationName =
     (let searchName = trim (toLowerCase medicationName)
      in find (matchesName searchName) db)"

section \<open>Category risk model (pregnancy-safety-engine)\<close>

text \<open>
  The entries of \<open>FDA_CATEGORIES\<close>, without their \<open>emoji\<close> and \<open>explanation\<close> texts. The
  table has the five keys A, B, C, D and X.
\<close>

record categoryInfo =
  cat_name :: string
  cat_description :: string
  cat_riskLevel :: string
  cat_baseScore :: int
  cat_recommendation :: string

definition FDA_CATEGORIES :: "(string \<times> categoryInfo) list" where
  "FDA_CATEGORIES =
    [(''A'', \<lparr> cat_name = ''Category A'',
              cat_description = ''Safe - Controlled studies show no risk'',
              cat_riskLevel = ''low'', cat_baseScore = 10,
              cat_recommendation = ''Safe to use during pregnancy'' \<rparr>),
     (''B'', \<lparr> cat_name = ''Category B'',
              cat_description = ''Probably Safe - Animal studies OK, no human data'',
              cat_riskLevel = ''low'', cat_baseScore = 25,
              cat_recommendation = ''Generally considered safe'' \<rparr>),
     (''C'', \<lparr> cat_name = ''Category C'',
              cat_description = ''Use with Caution - Risk cannot be ruled out'',
              cat_riskLevel = ''moderate'', cat_baseScore = 50,
              cat_recommendation = ''Use only if benefits outweigh risks'' \<rparr>),
     (''D'', \<lparr> cat_name = ''Category D'',
              cat_description = ''Serious Risk - Evidence of fetal risk'',
              cat_riskLevel = ''high'', cat_baseScore = 75,
              cat_recommendation = ''Avoid unless no alternatives exist'' \<rparr>),
     (''X'', \<lparr> cat_name = ''Category X'',
              cat_description = ''CONTRAINDICATED - Proven fetal harm'',
              cat_riskLevel = ''critical'', cat_baseScore = 95,
              cat_recommendation = ''NEVER use during pregnancy'' \<rparr>)]"

definition Math_round :: "rat \<Rightarrow> int" where
  "Math_round x = \<lfloor>x + 1 / 2\<rfloor>"

text \<open>\<^verbatim>\<open>medication.pregnancyCategory?.fda || 'C'\<close>\<close>

definition fdaOrC :: "medication \<Rightarrow> string" where
  "fdaOrC medication =
     (case pregnancyCategory medication of
        None \<Rightarrow> ''C''
      | Some pc \<Rightarrow> if truthy (fda pc) then the (fda pc) else ''C'')"

text \<open>\<^verbatim>\<open>medication.pregnancyCategory?.[`trimester${n}`]\<close>\<close>

definition trimesterDataOf :: "medication \<Rightarrow> nat \<Rightarrow> trimesterData option" where
  "trimesterDataOf medication n =
     (case pregnancyCategory medication of
        None \<Rightarrow> None
      | Some pc \<Rightarrow>
          if n = 1 then trimester1 pc
          else if n = 2 then trimester2 pc
          else if n = 3 then trimester3 pc
          else None)"

definition applyCritical :: "criticalPeriod \<Rightarrow> rat \<Rightarrow> rat" where
  "applyCritical critical score =
     (if isCritical critical then
        (if severity critical = ''critical'' then score * (13 / 10)
         else if severity critical = ''high'' then score * (6 / 5)
         else if severity critical = ''moderate'' then score * (11 / 10)
         else score)
      else score)"

definition applyOverride :: "trimesterData option \<Rightarrow> rat \<Rightarrow> rat" where
  "applyOverride trimesterData score =
     (case trimesterData of
        None \<Rightarrow> score
      | Some td \<Rightarrow>
          (let score' = (if td_safe td = Some False then max score 70 else score)
           in if td_risk td = Some ''critical'' then max score' 85
              else if td_risk td = Some ''high'' then max score' 65
              else if td_risk td = Some ''moderate'' then max score' 45
              else if td_risk td = Some ''low'' then min score' 30
              else score'))"

definition calculateRiskScore :: "medication \<Rightarrow> int \<Rightarrow> error + int" where
  "calculateRiskScore medication weekOfPregnancy =
     (case validateMedication medication of Inl e \<Rightarrow> Inl e | Inr _ \<Rightarrow>
     (case validateWeek weekOfPregnancy of Inl e \<Rightarrow> Inl e | Inr _ \<Rightarrow>
     (case getTrimester weekOfPregnancy of Inl e \<Rightarrow> Inl e | Inr trimester \<Rightarrow>
     (case isCriticalPeriod weekOfPregnancy of Inl e \<Rightarrow> Inl e | Inr critical \<Rightarrow>
     (let fdaCategory = fdaOrC medication in
      (case map_of FDA_CATEGORIES fdaCategory of
         None \<Rightarrow> Inl (InvalidFDACategory fdaCategory)
       | Some categoryInfo \<Rightarrow>
           (let score = of_int (cat_baseScore categoryInfo);
                score = score * riskMultiplier trimester;
                score = applyCritical critical score;
                score = applyOverride (trimesterDataOf medication (number trimester)) score
            in Inr (min (Math_round score) 100))))))))"

definition getRiskLevel :: "int \<Rightarrow> string" where
  "getRiskLevel score =
     (if score \<le> 20 then ''low''
      else if score \<le> 40 then ''moderate''
      else if score \<le> 60 then ''caution''
      else if score \<le> 80 then ''high''
      else ''critical'')"

subsection \<open>Safety assessment of one medication\<close>

text \<open>
  The assessment \<open>checkMedicationSafety\<close> builds for a medication of the store, without its
  \<open>recommendation\<close> text, the \<open>contraindications\<close> it copies from the record and its
  \<open>assessmentDate\<close>. For a name the store does not know the function returns
  \<^verbatim>\<open>{ found: false, medicationName, ... }\<close>.
\<close>

record safetyAssessment =
  sa_medicationName :: "string option"
  sa_genericName :: "string option"
  sa_brandNames :: "string list option"
  sa_weekOfPregnancy :: int
  sa_trimester :: "nat \<times> string \<times> string"
  sa_safe :: bool
  sa_fdaCategory :: "string \<times> categoryInfo option"
  sa_riskScore :: int
  sa_riskLevel :: string
  sa_criticalPeriod :: criticalPeriod
  sa_trimesterSpecific :: "trimesterData option"
  sa_warnings :: "string list"
  sa_alternatives :: "string list"
  sa_requiresProviderConsent :: bool
  sa_requiresObstetrician :: bool

datatype safetyCheck = SafetyNotFound string | SafetyFound safetyAssessment

text \<open>\<^verbatim>\<open>trimesterData?.warnings || []\<close>\<close>

definition orEmpty :: "string list option \<Rightarrow> string list" where
  "orEmpty xs = (case xs of None \<Rightarrow> [] | Some ys \<Rightarrow> ys)"

definition checkMedicationSafety ::
  "medication list \<Rightarrow> string \<Rightarrow> int \<Rightarrow> error + safetyCheck" where
  "checkMedicationSafety db medicationName weekOfPregnancy =
     (if medicationName = [] then Inl MedicationNameRequired else
     (case validateWeek weekOfPregnancy of Inl e \<Rightarrow> Inl e | Inr _ \<Rightarrow>
     (case findMedication db medicationName of
        None \<Rightarrow> Inr (SafetyNotFound medicationName)
      | Some medication \<Rightarrow>
     (case getTrimester weekOfPregnancy of Inl e \<Rightarrow> Inl e | Inr trimester \<Rightarrow>
     (case isCriticalPeriod weekOfPregnancy of Inl e \<Rightarrow> Inl e | Inr critical \<Rightarrow>
     (case calculateRiskScore medication weekOfPregnancy of
        Inl e \<Rightarrow> Inl e
      | Inr riskScore \<Rightarrow>
      (let riskLevel = getRiskLevel riskScore;
           fdaCategory = fdaOrC medication;
           trimesterData = trimesterDataOf medication (number trimester);
           isSafe = (riskScore \<le> 40 \<and>
                     (case trimesterData of None \<Rightarrow> True | Some td \<Rightarrow> td_safe td \<noteq> Some False))
       in Inr (SafetyFound
            \<lparr> sa_medicationName = med_name medication,
              sa_genericName = genericName medication,
              sa_brandNames = brandNames medication,
              sa_weekOfPregnancy = weekOfPregnancy,
              sa_trimester = (number trimester, name trimester, description trimester),
              sa_safe = isSafe,
              sa_fdaCategory = (fdaCategory, map_of FDA_CATEGORIES fdaCategory),
              sa_riskScore = riskScore,
              sa_riskLevel = riskLevel,
              sa_criticalPeriod = critical,
              sa_trimesterSpecific = trimesterData,
              sa_warnings =
                (case trimesterData of None \<Rightarrow> [] | Some td \<Rightarrow> orEmpty (td_warnings td)),
              sa_alternatives =
                (case trimesterData of None \<Rightarrow> [] | Some td \<Rightarrow> orEmpty (td_alternatives td)),
              sa_requiresProviderConsent =
                (riskScore > 40 \<or> fdaCategory = ''D'' \<or> fdaCategory = ''X''),
              sa_requiresObstetrician =
                (riskScore > 60 \<or> fdaCategory = ''X'' \<or>
                 severity critical = ''critical'') \<rparr>))))))))"

section \<open>Interaction rules (pregnancy-interaction-checker)\<close>

record effects =
  maternal :: "string list"
  fetal :: "string list"
  neonatal :: "string list"

record interactionRule =
  i_medications :: "string list"
  i_severity :: string
  i_normalSeverity :: "string option"
  i_pregnancySpecific :: bool
  i_reason :: string
  i_effects :: effects
  i_trimesterRisks :: "(nat \<times> string) list"
  i_recommendation :: string
  i_alternatives :: "(string \<times> string list) list"

text \<open>
  A finding is \<^verbatim>\<open>{ type: ..., ...interaction, currentTrimester: n }\<close>, with
  \<open>currentTrimesterRisk\<close> added for a drug-drug interaction.
\<close>

record finding = interactionRule +
  f_type :: string
  currentTrimester :: nat
  currentTrimesterRisk :: "string option"

definition PREGNANCY_INTERACTIONS :: "(string \<times> interactionRule) list" where
  "PREGNANCY_INTERACTIONS =
    [(''ibuprofen_lisinopril'',
      \<lparr> i_medications = [''Ibuprofen'', ''Lisinopril''],
        i_severity = ''critical'',
        i_normalSeverity = Some ''moderate'',
        i_pregnancySpecific = True,
        i_reason = ''Combined use significantly increases risk of renal failure in fetus'',
        i_effects = \<lparr> maternal = [''Kidney damage'', ''Blood pressure instability''],
                      fetal = [''Renal failure'', ''Oligohydramnios'', ''Fetal death''],
                      neonatal = [''Kidney dysfunction'', ''Hypotension''] \<rparr>,
        i_trimesterRisks = [(1, ''high''), (2, ''critical''), (3, ''critical'')],
        i_recommendation = ''AVOID COMBINATION - Use safer alternatives'',
        i_alternatives = [(''Ibuprofen'', [''Acetaminophen'']),
                          (''Lisinopril'', [''Methyldopa'', ''Labetalol''])] \<rparr>),
     (''ibuprofen_aspirin'',
      \<lparr> i_medications = [''Ibuprofen'', ''Aspirin''],
        i_severity = ''high'',
        i_normalSeverity = Some ''moderate'',
        i_pregnancySpecific = True,
        i_reason = ''Increased bleeding risk, especially near delivery'',
        i_effects = \<lparr> maternal = [''Increased bleeding'', ''Prolonged labor''],
                      fetal = [''Premature closure of ductus arteriosus''],
                      neonatal = [''Bleeding complications'', ''Pulmonary hypertension''] \<rparr>,
        i_trimesterRisks = [(1, ''moderate''), (2, ''high''), (3, ''critical'')],
        i_recommendation = ''Avoid in 3rd trimester; use caution earlier'',
        i_alternatives = [(''Ibuprofen'', [''Acetaminophen'']),
                          (''Aspirin'', [''Low-dose aspirin under supervision only''])] \<rparr>),
     (''sertraline_ibuprofen'',
      \<lparr> i_medications = [''Sertraline'', ''Ibuprofen''],
        i_severity = ''high'',
        i_normalSeverity = Some ''moderate'',
        i_pregnancySpecific = True,
        i_reason = ''Both increase bleeding risk; synergistic effect during pregnancy'',
        i_effects = \<lparr> maternal = [''Postpartum hemorrhage risk''],
                      fetal = [''Persistent pulmonary hypertension (3rd trimester)''],
                      neonatal = [''Bleeding'', ''Withdrawal symptoms''] \<rparr>,
        i_trimesterRisks = [(1, ''moderate''), (2, ''moderate''), (3, ''high'')],
        i_recommendation = ''Avoid combination; use acetaminophen instead of NSAIDs'',
        i_alternatives = [(''Ibuprofen'', [''Acetaminophen''])] \<rparr>),
     (''atorvastatin_pregnancy'',
      \<lparr> i_medications = [''Atorvastatin''],
        i_severity = ''critical'',
        i_normalSeverity = Some ''n/a'',
        i_pregnancySpecific = True,
        i_reason = ''Category X - Absolutely contraindicated in pregnancy'',
        i_effects = \<lparr> maternal = [''None specific''],
                      fetal = [''Severe birth defects'', ''Skeletal abnormalities'',
                               ''CNS malformations''],
                      neonatal = [''Multiple congenital anomalies''] \<rparr>,
        i_trimesterRisks = [(1, ''critical''), (2, ''critical''), (3, ''critical'')],
        i_recommendation = ''DISCONTINUE IMMEDIATELY - Never use during pregnancy'',
        i_alternatives = [(''Atorvastatin'', [''Dietary management'',
                            ''Bile acid sequestrants (limited use)''])] \<rparr>),
     (''lisinopril_pregnancy'',
      \<lparr> i_medications = [''Lisinopril''],
        i_severity = ''critical'',
        i_normalSeverity = Some ''n/a'',
        i_pregnancySpecific = True,
        i_reason = ''Causes fetal renal damage and death in 2nd/3rd trimesters'',
        i_effects = \<lparr> maternal = [''Hypotension''],
                      fetal = [''Renal failure'', ''Oligohydramnios'',
                               ''Intrauterine growth restriction'', ''Death''],
                      neonatal = [''Anuria'', ''Hypotension'', ''Renal failure'', ''Death''] \<rparr>,
        i_trimesterRisks = [(1, ''high''), (2, ''critical''), (3, ''critical'')],
        i_recommendation = ''DISCONTINUE - Switch to pregnancy-safe antihypertensive'',
        i_alternatives = [(''Lisinopril'', [''Methyldopa'', ''Labetalol'', ''Nifedipine''])] \<rparr>),
     (''losartan_pregnancy'',
      \<lparr> i_medications = [''Losartan''],
        i_severity = ''critical'',
        i_normalSeverity = Some ''n/a'',
        i_pregnancySpecific = True,
        i_reason = ''Similar mechanism to ACE inhibitors - causes fetal harm'',
        i_effects = \<lparr> maternal = [''Hypotension''],
                      fetal = [''Renal failure'', ''Oligohydramnios'', ''Skull hypoplasia'',
                               ''Death''],
                      neonatal = [''Anuria'', ''Hypotension'', ''Renal failure''] \<rparr>,
        i_trimesterRisks = [(1, ''high''), (2, ''critical''), (3, ''critical'')],
        i_recommendation = ''DISCONTINUE - Switch to safer blood pressure medication'',
        i_alternatives = [(''Losartan'', [''Methyldopa'', ''Labetalol'', ''Nifedipine''])] \<rparr>)]"

text \<open>The rules synthesised for a category X or D medication that has no table entry.\<close>

definition defaultRuleX :: "string \<Rightarrow> interactionRule" where
  "defaultRuleX g =
     \<lparr> i_medications = [g],
       i_severity = ''critical'',
       i_normalSeverity = None,
       i_pregnancySpecific = True,
       i_reason = ''Category X - Contraindicated in pregnancy'',
       i_effects = \<lparr> maternal = [''Unknown''],
                     fetal = [''Birth defects'', ''Fetal harm''],
                     neonatal = [''Potential complications''] \<rparr>,
       i_trimesterRisks = [(1, ''critical''), (2, ''critical''), (3, ''critical'')],
       i_recommendation = ''DISCONTINUE IMMEDIATELY'',
       i_alternatives = [] \<rparr>"

definition defaultRuleD :: "string \<Rightarrow> interactionRule" where
  "defaultRuleD g =
     \<lparr> i_medications = [g],
       i_severity = ''high'',
       i_normalSeverity = None,
       i_pregnancySpecific = True,
       i_reason = ''Category D - Evidence of fetal risk'',
       i_effects = \<lparr> maternal = [''Varies by medication''],
                     fetal = [''Fetal harm possible''],
                     neonatal = [''Potential complications''] \<rparr>,
       i_trimesterRisks = [(1, ''high''), (2, ''high''), (3, ''high'')],
       i_recommendation = ''Avoid unless benefits outweigh risks'',
       i_alternatives = [] \<rparr>"

definition mkFinding :: "string \<Rightarrow> interactionRule \<Rightarrow> nat \<Rightarrow> string option \<Rightarrow> finding" where
  "mkFinding ty interaction n r =
     interactionRule.extend interaction
       \<lparr> f_type = ty, currentTrimester = n, currentTrimesterRisk = r \<rparr>"

subsection \<open>Iteration with exceptions\<close>

text \<open>
  \<open>forEach\<close> and \<open>map\<close> with a callback that may throw: the first exception ends the loop.
\<close>

fun forEachE :: "('a \<Rightarrow> 's \<Rightarrow> error + 's) \<Rightarrow> 'a list \<Rightarrow> 's \<Rightarrow> error + 's" where
  "forEachE f [] st = Inr st"
| "forEachE f (x # xs) st =
     (case f x st of Inl e \<Rightarrow> Inl e | Inr st' \<Rightarrow> forEachE f xs st')"

fun mapE :: "('a \<Rightarrow> error + 'b) \<Rightarrow> 'a list \<Rightarrow> error + 'b list" where
  "mapE f [] = Inr []"
| "mapE f (x # xs) =
     (case f x of
        Inl e \<Rightarrow> Inl e
      | Inr y \<Rightarrow> (case mapE f xs of Inl e \<Rightarrow> Inl e | Inr ys \<Rightarrow> Inr (y # ys)))"

subsection \<open>Checks of one medication and of a pair\<close>

text \<open>
  The state of both iterations of \<open>checkPregnancyInteractions\<close> is the array \<open>interactions\<close>
  (\<open>push\<close> appends at its end) and the variable \<open>highestSeverity\<close>.
\<close>

type_synonym checkState = "finding list \<times> string"

text \<open>\<^verbatim>\<open>med.pregnancyCategory?.fda\<close>\<close>

definition fdaOf :: "medication \<Rightarrow> string option" where
  "fdaOf med = (case pregnancyCategory med of None \<Rightarrow> None | Some pc \<Rightarrow> fda pc)"

definition checkIndividual ::
  "medication list \<Rightarrow> nat \<Rightarrow> string \<Rightarrow> checkState \<Rightarrow> error + checkState" where
  "checkIndividual db n medName st =
     (case st of (interactions, highestSeverity) \<Rightarrow>
     (case findMedication db medName of
        None \<Rightarrow> Inr st
      | Some med \<Rightarrow>
          (let fdaCategory = fdaOf med in
           if fdaCategory = Some ''X'' then
             (case genericName med of
                None \<Rightarrow> Inl TypeError
              | Some g \<Rightarrow>
                  (let interactionKey = toLowerCase g @ ''_pregnancy'';
                       interaction = (case map_of PREGNANCY_INTERACTIONS interactionKey of
                                        Some r \<Rightarrow> r
                                      | None \<Rightarrow> defaultRuleX g)
                   in Inr (interactions @
                             [mkFinding ''pregnancy_contraindication'' interaction n None],
                           ''critical'')))
           else if fdaCategory = Some ''D'' then
             (case genericName med of
                None \<Rightarrow> Inl TypeError
              | Some g \<Rightarrow>
                  (let interactionKey = toLowerCase g @ ''_pregnancy'';
                       interaction = (case map_of PREGNANCY_INTERACTIONS interactionKey of
                                        Some r \<Rightarrow> r
                                      | None \<Rightarrow> defaultRuleD g)
                   in Inr (interactions @
                             [mkFinding ''pregnancy_high_risk'' interaction n None],
                           if highestSeverity \<noteq> ''critical'' then ''high''
                           else highestSeverity)))
           else Inr st)))"

text \<open>\<^verbatim>\<open>names.join('_')\<close>\<close>

fun join :: "string \<Rightarrow> string list \<Rightarrow> string" where
  "join sep [] = []"
| "join sep [x] = x"
| "join sep (x # y # ys) = x @ sep @ join sep (y # ys)"

text \<open>
  The key of a pair of generic names: both in lower case, sorted, joined by an underscore.
\<close>

definition pairInteractionKey :: "string \<Rightarrow> string \<Rightarrow> string" where
  "pairInteractionKey g1 g2 = join ''_'' (sort [toLowerCase g1, toLowerCase g2])"

definition checkPair ::
  "medication list \<Rightarrow> nat \<Rightarrow> string \<Rightarrow> string \<Rightarrow> checkState \<Rightarrow> error + checkState" where
  "checkPair db n name1 name2 st =
     (case st of (interactions, highestSeverity) \<Rightarrow>
     (case (findMedication db name1, findMedication db name2) of
        (Some med1, Some med2) \<Rightarrow>
          (case (genericName med1, genericName med2) of
             (Some g1, Some g2) \<Rightarrow>
               (case map_of PREGNANCY_INTERACTIONS (pairInteractionKey g1 g2) of
                  None \<Rightarrow> Inr st
                | Some interaction \<Rightarrow>
                    (let trimesterRisk = map_of (i_trimesterRisks interaction) n
                     in Inr (interactions @
                               [mkFinding ''drug_interaction'' interaction n trimesterRisk],
                             if i_severity interaction = ''critical'' \<or>
                                trimesterRisk = Some ''critical'' then ''critical''
                             else if i_severity interaction = ''high'' \<and>
                                     highestSeverity \<noteq> ''critical'' then ''high''
                             else if i_severity interaction = ''moderate'' \<and>
                                     highestSeverity = ''none'' then ''moderate''
                             else highestSeverity)))
           | _ \<Rightarrow> Inl TypeError)
      | _ \<Rightarrow> Inr st))"

text \<open>
  The nested iteration \<^verbatim>\<open>for (i = 0; ...) for (j = i + 1; ...)\<close>: the first name of the list is
  paired with each later name, then the iteration goes on with the rest of the list.
\<close>

fun checkPairs ::
  "medication list \<Rightarrow> nat \<Rightarrow> string list \<Rightarrow> checkState \<Rightarrow> error + checkState" where
  "checkPairs db n [] st = Inr st"
| "checkPairs db n (name1 # rest) st =
     (case forEachE (checkPair db n name1) rest st of
        Inl e \<Rightarrow> Inl e
      | Inr st' \<Rightarrow> checkPairs db n rest st')"

text \<open>
  The result of \<open>checkPregnancyInteractions\<close>, without its \<open>recommendation\<close> text and its
  \<open>assessmentDate\<close>.
\<close>

record interactionCheck =
  ic_weekOfPregnancy :: int
  ic_trimester :: nat
  ic_medications :: "string list"
  interactionsFound :: nat
  interactions :: "finding list"
  highestSeverity :: string
  ic_safe :: bool
  ic_requiresProviderConsent :: bool
  ic_requiresObstetrician :: bool

definition checkPregnancyInteractions ::
  "medication list \<Rightarrow> string list \<Rightarrow> int \<Rightarrow> error + interactionCheck" where
  "checkPregnancyInteractions db medicationNames weekOfPregnancy =
     (if medicationNames = [] then Inl NonEmptyArrayRequired else
     (case validateWeek weekOfPregnancy of Inl e \<Rightarrow> Inl e | Inr _ \<Rightarrow>
     (case getTrimester weekOfPregnancy of Inl e \<Rightarrow> Inl e | Inr trimester \<Rightarrow>
     (case forEachE (checkIndividual db (number trimester)) medicationNames ([], ''none'') of
        Inl e \<Rightarrow> Inl e
      | Inr st \<Rightarrow>
     (case checkPairs db (number trimester) medicationNames st of
        Inl e \<Rightarrow> Inl e
      | Inr (collected, highest) \<Rightarrow>
          Inr \<lparr> ic_weekOfPregnancy = weekOfPregnancy,
                ic_trimester = number trimester,
                ic_medications = medicationNames,
                interactionsFound = length collected,
                interactions = collected,
                highestSeverity = highest,
                ic_safe = (highest = ''none''),
                ic_requiresProviderConsent = (highest = ''high'' \<or> highest = ''critical''),
                ic_requiresObstetrician = (highest = ''critical'') \<rparr>)))))"

section \<open>Risk tiers (pregnancy-risk-calculator)\<close>

record riskThresholds =
  LOW :: int
  MODERATE :: int
  HIGH :: int
  CRITICAL :: int

definition RISK_THRESHOLDS :: riskThresholds where
  "RISK_THRESHOLDS = \<lparr> LOW = 30, MODERATE = 50, HIGH = 70, CRITICAL = 85 \<rparr>"

definition getRiskLevelFromScore :: "int \<Rightarrow> string" where
  "getRiskLevelFromScore score =
     (if score \<le> LOW RISK_THRESHOLDS then ''low''
      else if score \<le> MODERATE RISK_THRESHOLDS then ''moderate''
      else if score \<le> HIGH RISK_THRESHOLDS then ''high''
      else ''critical'')"


section \<open>Composite risk calculator (pregnancy-risk-calculator)\<close>

text \<open>
  The object \<open>calculateSingleMedicationRisk\<close> returns. When the medication is not found it
  has the properties \<open>found\<close>, \<open>medicationName\<close> and \<open>riskLevel\<close> only; the others are
  \<open>undefined\<close>. The \<open>recommendation\<close> text is left out.
\<close>

record medicationRisk =
  found :: bool
  mr_medicationName :: "string option"
  mr_weekOfPregnancy :: "int option"
  mr_trimester :: "nat option"
  mr_riskScore :: "int option"
  mr_riskLevel :: string
  mr_fdaCategory :: "string option"
  mr_safe :: "bool option"
  mr_criticalPeriod :: "bool option"
  mr_warnings :: "string list option"
  mr_alternatives :: "string list option"
  mr_requiresProviderConsent :: "bool option"
  mr_requiresObstetrician :: "bool option"

definition calculateSingleMedicationRisk ::
  "medication list \<Rightarrow> string \<Rightarrow> int \<Rightarrow> error + medicationRisk" where
  "calculateSingleMedicationRisk db medicationName weekOfPregnancy =
     (case validateWeek weekOfPregnancy of Inl e \<Rightarrow> Inl e | Inr _ \<Rightarrow>
     (case checkMedicationSafety db medicationName weekOfPregnancy of
        Inl e \<Rightarrow> Inl e
      | Inr (SafetyNotFound _) \<Rightarrow>
          Inr \<lparr> found = False,
                mr_medicationName = Some medicationName,
                mr_weekOfPregnancy = None,
                mr_trimester = None,
                mr_riskScore = None,
                mr_riskLevel = ''unknown'',
                mr_fdaCategory = None,
                mr_safe = None,
                mr_criticalPeriod = None,
                mr_warnings = None,
                mr_alternatives = None,
                mr_requiresProviderConsent = None,
                mr_requiresObstetrician = None \<rparr>
      | Inr (SafetyFound safetyCheck) \<Rightarrow>
          Inr \<lparr> found = True,
                mr_medicationName = sa_genericName safetyCheck,
                mr_weekOfPregnancy = Some weekOfPregnancy,
                mr_trimester = Some (fst (sa_trimester safetyCheck)),
                mr_riskScore = Some (sa_riskScore safetyCheck),
                mr_riskLevel = sa_riskLevel safetyCheck,
                mr_fdaCategory = Some (fst (sa_fdaCategory safetyCheck)),
                mr_safe = Some (sa_safe safetyCheck),
                mr_criticalPeriod = Some (isCritical (sa_criticalPeriod safetyCheck)),
                mr_warnings = Some (sa_warnings safetyCheck),
                mr_alternatives = Some (sa_alternatives safetyCheck),
                mr_requiresProviderConsent = Some (sa_requiresProviderConsent safetyCheck),
                mr_requiresObstetrician = Some (sa_requiresObstetrician safetyCheck) \<rparr>))"

text \<open>\<^verbatim>\<open>m.riskScore || 0\<close>\<close>

definition riskScoreOr0 :: "medicationRisk \<Rightarrow> int" where
  "riskScoreOr0 m = (case mr_riskScore m of None \<Rightarrow> 0 | Some n \<Rightarrow> n)"

text \<open>
  \<open>Math.max\<close> of the elements of an array: the largest of them, and \<open>-Infinity\<close> when the
  array is empty.
\<close>

datatype maximum = NegInfinity | Finite int

definition maxOf :: "int \<Rightarrow> int list \<Rightarrow> int" where
  "maxOf x xs = fold max xs x"

fun Math_max :: "int list \<Rightarrow> maximum" where
  "Math_max [] = NegInfinity"
| "Math_max (x # xs) = Finite (maxOf x xs)"

definition interactionPenalty :: "finding \<Rightarrow> rat \<Rightarrow> rat" where
  "interactionPenalty interaction baseScore =
     (if i_severity interaction = ''critical'' then baseScore + 20
      else if i_severity interaction = ''high'' then baseScore + 15
      else if i_severity interaction = ''moderate'' then baseScore + 10
      else baseScore)"

definition calculateCompositeScore :: "medicationRisk list \<Rightarrow> interactionCheck \<Rightarrow> int" where
  "calculateCompositeScore medicationRisks interactionCheck =
     (case filter found medicationRisks of
        [] \<Rightarrow> 0
      | v # vs \<Rightarrow>
          (let validRisks = v # vs;
               avgMedicationRisk =
                 of_int (foldl (\<lambda>sum m. sum + riskScoreOr0 m) 0 validRisks) /
                 of_nat (length validRisks);
               maxRisk = maxOf (riskScoreOr0 v) (map riskScoreOr0 vs);
               baseScore = of_int maxRisk * (3 / 5) + avgMedicationRisk * (2 / 5);
               baseScore = fold interactionPenalty (interactions interactionCheck) baseScore;
               baseScore = (if length validRisks \<ge> 3
                            then baseScore + of_nat ((length validRisks - 2) * 3)
                            else baseScore)
           in min (Math_round baseScore) 100))"

text \<open>
  The result of \<open>calculateMultipleMedicationRisk\<close>, without the collected \<open>warnings\<close>,
  \<open>safeAlternatives\<close> and \<open>recommendations\<close> and without its \<open>assessmentDate\<close>.
\<close>

record compositeRisk =
  cr_weekOfPregnancy :: int
  trimesterNumber :: nat
  medicationCount :: nat
  medicationRisks :: "medicationRisk list"
  interactionRisks :: "finding list"
  overallRiskLevel :: string
  riskScore :: int
  highestIndividualRisk :: maximum
  safe :: bool
  hasCategoryX :: bool
  hasCategoryD :: bool
  requiresProviderConsent :: bool
  requiresObstetrician :: bool

definition calculateMultipleMedicationRisk ::
  "medication list \<Rightarrow> string list \<Rightarrow> int \<Rightarrow> error + compositeRisk" where
  "calculateMultipleMedicationRisk db medicationNames weekOfPregnancy =
     (if medicationNames = [] then Inl NonEmptyArrayRequired else
     (case validateWeek weekOfPregnancy of Inl e \<Rightarrow> Inl e | Inr _ \<Rightarrow>
     (case getTrimester weekOfPregnancy of Inl e \<Rightarrow> Inl e | Inr trimester \<Rightarrow>
     (case mapE (\<lambda>medName. calculateSingleMedicationRisk db medName weekOfPregnancy)
             medicationNames of
        Inl e \<Rightarrow> Inl e
      | Inr risks \<Rightarrow>
     (case checkPregnancyInteractions db medicationNames weekOfPregnancy of
        Inl e \<Rightarrow> Inl e
      | Inr interactionCheck \<Rightarrow>
      (let compositeScore = calculateCompositeScore risks interactionCheck;
           level = getRiskLevelFromScore compositeScore;
           highest = Math_max (map riskScoreOr0 (filter found risks));
           hasX = list_ex (\<lambda>m. found m \<and> mr_fdaCategory m = Some ''X'') risks;
           hasD = list_ex (\<lambda>m. found m \<and> mr_fdaCategory m = Some ''D'') risks
       in Inr \<lparr> cr_weekOfPregnancy = weekOfPregnancy,
                 trimesterNumber = number trimester,
                 medicationCount = length medicationNames,
                 medicationRisks = risks,
                 interactionRisks = interactions interactionCheck,
                 overallRiskLevel = level,
                 riskScore = compositeScore,
                 highestIndividualRisk = highest,
                 safe = (level = ''low'' \<and> \<not> hasD \<and> \<not> hasX),
                 hasCategoryX = hasX,
                 hasCategoryD = hasD,
                 requiresProviderConsent =
                   (compositeScore > MODERATE RISK_THRESHOLDS \<or> hasD \<or> hasX \<or>
                    ic_requiresProviderConsent interactionCheck),
                 requiresObstetrician =
                   (compositeScore > HIGH RISK_THRESHOLDS \<or> hasX \<or>
                    ic_requiresObstetrician interactionCheck) \<rparr>))))))"

section \<open>A reference store for the examples\<close>

text \<open>
  The data builder writes the records of \<^verbatim>\<open>data/medications.json\<close> with \<open>exportForBumpie\<close>:
  the name and the generic name are the generic name, the category is copied, and each
  trimester gets the same override, safe for the categories A and B only.
\<close>

definition exportedOverride :: "string \<Rightarrow> trimesterData" where
  "exportedOverride pregnancy_category =
     \<lparr> td_safe = Some (pregnancy_category \<in> set [''A'', ''B'']),
       td_risk = Some (if pregnancy_category = ''A'' then ''minimal''
                       else if pregnancy_category = ''B'' then ''low''
                       else if pregnancy_category = ''C'' then ''moderate''
                       else if pregnancy_category = ''D'' then ''high''
                       else ''severe''),
       td_warnings = Some [],
       td_alternatives = Some [] \<rparr>"

definition exportForBumpie :: "string \<times> string list \<times> string \<Rightarrow> medication" where
  "exportForBumpie med =
     (case med of (generic, brands, pregnancy_category) \<Rightarrow>
        \<lparr> med_name = Some generic,
          genericName = Some generic,
          brandNames = Some brands,
          pregnancyCategory = Some
            \<lparr> fda = Some pregnancy_category,
              trimester1 = Some (exportedOverride pregnancy_category),
              trimester2 = Some (exportedOverride pregnancy_category),
              trimester3 = Some (exportedOverride pregnancy_category) \<rparr> \<rparr>)"

text \<open>
  Nine of the fifteen medications the repository documents as its data, with their brand
  names and categories.
\<close>

definition exampleStore :: "medication list" where
  "exampleStore = map exportForBumpie
     [(''Acetaminophen'', [''Tylenol''], ''B''),
      (''Ibuprofen'', [''Advil'', ''Motrin''], ''D''),
      (''Aspirin'', [''Bayer''], ''D''),
      (''Lisinopril'', [''Prinivil'', ''Zestril''], ''D''),
      (''Metformin'', [''Glucophage''], ''B''),
      (''Levothyroxine'', [''Synthroid''], ''A''),
      (''Atorvastatin'', [''Lipitor''], ''X''),
      (''Sertraline'', [''Zoloft''], ''C''),
      (''Montelukast'', [''Singulair''], ''B'')]"

section \<open>The composite score as the specification words it\<close>

text \<open>
  The specification's account of the composite score, over the scores of the found
  medications and the severities of the triggered findings: 60% of the largest score plus
  40% of the mean score, a flat penalty for each finding according to its severity, a
  fixed increment for each found medication beyond the second when there are at least
  three, the sum rounded and capped at 100.
\<close>

definition spec_severityPenalty :: "string \<Rightarrow> rat" where
  "spec_severityPenalty sev =
     (if sev = ''critical'' then 20
      else if sev = ''high'' then 15
      else if sev = ''moderate'' then 10
      else 0)"

definition spec_polypharmacyPenalty :: "nat \<Rightarrow> rat" where
  "spec_polypharmacyPenalty n = (if n \<ge> 3 then 3 * of_nat (n - 2) else 0)"

definition spec_mean :: "int list \<Rightarrow> rat" where
  "spec_mean scores = of_int (sum_list scores) / of_nat (length scores)"

definition spec_compositeScore :: "int list \<Rightarrow> string list \<Rightarrow> int" where
  "spec_compositeScore scores severities =
     min (Math_round
            (60 / 100 * of_int (Max (set scores)) + 40 / 100 * spec_mean scores +
             sum_list (map spec_severityPenalty severities) +
             spec_polypharmacyPenalty (length scores)))
         100"

section \<open>What one step of each iteration contributes\<close>

text \<open>
  Auxiliary notions for the proofs about \<open>checkPregnancyInteractions\<close>. A step of either
  iteration fails or appends findings to \<open>interactions\<close> and updates \<open>highestSeverity\<close>; whether
  it fails and what it appends do not depend on the state. Each notion is read off the
  step function itself.
\<close>

definition individualFails :: "medication list \<Rightarrow> nat \<Rightarrow> string \<Rightarrow> bool" where
  "individualFails db n x = isl (checkIndividual db n x ([], ''none''))"

definition individualFindings :: "medication list \<Rightarrow> nat \<Rightarrow> string \<Rightarrow> finding list" where
  "individualFindings db n x =
     (case checkIndividual db n x ([], ''none'') of Inl e \<Rightarrow> [] | Inr st \<Rightarrow> fst st)"

definition individualSeverity :: "medication list \<Rightarrow> nat \<Rightarrow> string \<Rightarrow> string \<Rightarrow> string" where
  "individualSeverity db n x hs =
     (case checkIndividual db n x ([], hs) of Inl e \<Rightarrow> hs | Inr st \<Rightarrow> snd st)"

definition pairFails :: "medication list \<Rightarrow> nat \<Rightarrow> string \<times> string \<Rightarrow> bool" where
  "pairFails db n p = isl (checkPair db n (fst p) (snd p) ([], ''none''))"

definition pairFindings :: "medication list \<Rightarrow> nat \<Rightarrow> string \<times> string \<Rightarrow> finding list" where
  "pairFindings db n p =
     (case checkPair db n (fst p) (snd p) ([], ''none'') of Inl e \<Rightarrow> [] | Inr st \<Rightarrow> fst st)"

definition pairSeverity :: "medication list \<Rightarrow> nat \<Rightarrow> string \<times> string \<Rightarrow> string \<Rightarrow> string" where
  "pairSeverity db n p hs =
     (case checkPair db n (fst p) (snd p) ([], hs) of Inl e \<Rightarrow> hs | Inr st \<Rightarrow> snd st)"

text \<open>The pairs \<open>(names[i], names[j])\<close> with \<open>i < j\<close>, in the order the nested iteration visits them.\<close>

fun allPairs :: "'a list \<Rightarrow> ('a \<times> 'a) list" where
  "allPairs [] = []"
| "allPairs (x # xs) = map (Pair x) xs @ allPairs xs"

section \<open>Properties of the gestation calendar and of the risk tiers\<close>

lemmas trimester_consts =
  FIRST_def SECOND_def THIRD_def spreadTrimester_def trimesterDef.extend_def

text \<open>
  C2. For every composite score \<open>s\<close>, \<open>getRiskLevelFromScore\<close> (through the named constants
  \<open>RISK_THRESHOLDS\<close>) answers low up to 30, moderate from 31 to 50, high from 51 to 70 and
  critical above 70; the boundary scores 30, 31, 50, 51, 70 and 71 map to low, moderate,
  moderate, high, high and critical.
\<close>

theorem getRiskLevelFromScore_tiers:
  "(s \<le> 30 \<longrightarrow> getRiskLevelFromScore s = ''low'') \<and>
   (31 \<le> s \<and> s \<le> 50 \<longrightarrow> getRiskLevelFromScore s = ''moderate'') \<and>
   (51 \<le> s \<and> s \<le> 70 \<longrightarrow> getRiskLevelFromScore s = ''high'') \<and>
   (s > 70 \<longrightarrow> getRiskLevelFromScore s = ''critical'') \<and>
   getRiskLevelFromScore 30 = ''low'' \<and> getRiskLevelFromScore 31 = ''moderate'' \<and>
   getRiskLevelFromScore 50 = ''moderate'' \<and> getRiskLevelFromScore 51 = ''high'' \<and>
   getRiskLevelFromScore 70 = ''high'' \<and> getRiskLevelFromScore 71 = ''critical''"
  by (simp add: getRiskLevelFromScore_def RISK_THRESHOLDS_def)

theorem getRiskLevelFromScore_tiers_witness:
  "(25::int) \<le> 30 \<and> getRiskLevelFromScore 25 = ''low'' \<and>
   (31::int) \<le> 45 \<and> (45::int) \<le> 50 \<and> getRiskLevelFromScore 45 = ''moderate'' \<and>
   (51::int) \<le> 65 \<and> (65::int) \<le> 70 \<and> getRiskLevelFromScore 65 = ''high'' \<and>
   (90::int) > 70 \<and> getRiskLevelFromScore 90 = ''critical''"
  using getRiskLevelFromScore_tiers [of 25] getRiskLevelFromScore_tiers [of 45]
    getRiskLevelFromScore_tiers [of 65] getRiskLevelFromScore_tiers [of 90]
  by simp

text \<open>
  C3, as stated, puts week 13 in trimester 1. \<open>TRIMESTERS.FIRST.weeks\<close> is \<open>[1, 12]\<close> and
  \<open>TRIMESTERS.SECOND.weeks\<close> is \<open>[13, 27]\<close>: \<open>getTrimester 13\<close> answers trimester 2.
\<close>

theorem getTrimester_week13_second:
  "map_sum id number (getTrimester 13) = Inr 2 \<and>
   map_sum id number (getTrimester 13) \<noteq> Inr 1"
  by (simp add: getTrimester_def validateWeek_def trimester_consts)

text \<open>
  C3, amended. \<open>getTrimester\<close> sends the weeks 1 to 12 to trimester 1, the weeks 13 to 27 to
  trimester 2 and the weeks 28 to 40 to trimester 3: three closed intervals that cover the
  weeks 1 to 40 with no overlap and no gap. Every other week fails, week 0 in \<open>validateWeek\<close>
  and week 41 in \<open>getTrimester\<close> itself.
\<close>

theorem getTrimester_partition:
  "(1 \<le> w \<and> w \<le> 12 \<longrightarrow> map_sum id number (getTrimester w) = Inr 1) \<and>
   (13 \<le> w \<and> w \<le> 27 \<longrightarrow> map_sum id number (getTrimester w) = Inr 2) \<and>
   (28 \<le> w \<and> w \<le> 40 \<longrightarrow> map_sum id number (getTrimester w) = Inr 3) \<and>
   (w < 1 \<or> 40 < w \<longrightarrow>
      getTrimester w =
        Inl (if w < 1 \<or> 45 < w then INVALID_WEEK w else InvalidPregnancyWeek w)) \<and>
   getTrimester 0 = Inl (INVALID_WEEK 0) \<and>
   getTrimester 41 = Inl (InvalidPregnancyWeek 41)"
  by (auto simp add: getTrimester_def validateWeek_def trimester_consts)

theorem getTrimester_partition_witness:
  "map_sum id number (getTrimester 12) = Inr 1 \<and>
   map_sum id number (getTrimester 13) = Inr 2 \<and>
   map_sum id number (getTrimester 27) = Inr 2 \<and>
   map_sum id number (getTrimester 28) = Inr 3 \<and>
   map_sum id number (getTrimester 40) = Inr 3 \<and>
   getTrimester 50 = Inl (INVALID_WEEK 50)"
  using getTrimester_partition [of 12] getTrimester_partition [of 13]
    getTrimester_partition [of 27] getTrimester_partition [of 28]
    getTrimester_partition [of 40] getTrimester_partition [of 50]
  by simp

text \<open>
  C4. The week-specific table gives week 6 the severity critical, and the repository's test
  of \<open>isCriticalPeriod 6\<close> expects it. \<open>isCriticalPeriod\<close> returns from the first-trimester
  branch before it consults the table, so the weeks 3 to 6 carry the blanket severity high.
  The rest of the first trimester (week 10) is high and the term weeks (week 39) are
  moderate, as the claim says.
\<close>

theorem isCriticalPeriod_week6_blanket:
  "isCriticalPeriod 6 =
     Inr \<lparr> isCritical = True, reason = ''First trimester - organ formation period'',
           developments = Some [''Neural tube'', ''Heart'', ''Limbs'', ''Eyes'', ''Ears''],
           severity = ''high'', criticalWeek = None \<rparr> \<and>
   map_sum id severity (isCriticalPeriod 3) = Inr ''high'' \<and>
   map_sum id severity (isCriticalPeriod 4) = Inr ''high'' \<and>
   map_sum id severity (isCriticalPeriod 5) = Inr ''high'' \<and>
   map_of criticalWeeks 6 = Some (''Heart and limb development'', ''critical'') \<and>
   map_sum id severity (isCriticalPeriod 10) = Inr ''high'' \<and>
   map_sum id severity (isCriticalPeriod 39) = Inr ''moderate''"
  by (simp add: isCriticalPeriod_def getTrimester_def validateWeek_def trimester_consts
      criticalWeeks_def)

section \<open>Properties of the category risk model\<close>

lemma floor_numeral_div [simp]:
  "\<lfloor>numeral a / numeral b :: rat\<rfloor> = numeral a div numeral b"
  by (metis floor_divide_of_int_eq of_int_numeral)

lemmas calculateRiskScore_defs =
  calculateRiskScore_def validateMedication_def truthy_def validateWeek_def
  getTrimester_def isCriticalPeriod_def trimester_consts criticalWeeks_def fdaOrC_def
  FDA_CATEGORIES_def applyCritical_def applyOverride_def trimesterDataOf_def Math_round_def

lemma Math_round_mono: "x \<le> y \<Longrightarrow> Math_round x \<le> Math_round y"
  by (simp add: Math_round_def floor_mono)

lemma Math_round_of_int: "Math_round (of_int n) = n"
  unfolding Math_round_def by linarith

lemma Math_round_ge: "of_int n \<le> x \<Longrightarrow> n \<le> Math_round x"
  using Math_round_mono [of "of_int n" x] by (simp add: Math_round_of_int)

lemma applyOverride_unsafe:
  assumes "td_safe td = Some False" and "td_risk td \<noteq> Some ''low''"
  shows "70 \<le> applyOverride (Some td) x"
  using assms by (auto simp add: applyOverride_def Let_def max_def)

text \<open>
  C5, as stated, promises a score of at least 70 whenever the override of the current
  trimester declares \<open>safe == false\<close>, whatever else it declares. A category D medication at
  week 20 whose second-trimester override declares \<open>safe: false\<close> and \<open>risk: 'low'\<close> is raised
  to 75 by the floor and then capped by the low-tier ceiling: the score is 30.
\<close>

theorem calculateRiskScore_unsafe_low_counterexample:
  "calculateRiskScore
     \<lparr> med_name = Some ''TestMed'', genericName = Some ''TestMed'', brandNames = None,
       pregnancyCategory = Some \<lparr> fda = Some ''D'', trimester1 = None,
         trimester2 = Some \<lparr> td_safe = Some False, td_risk = Some ''low'',
                             td_warnings = None, td_alternatives = None \<rparr>,
         trimester3 = None \<rparr> \<rparr> 20 = Inr 30 \<and> (30::int) < 70"
  by (simp add: calculateRiskScore_defs)

text \<open>
  C5, amended. When the override of the trimester computed from the week declares
  \<open>safe == false\<close> and does not declare the risk tier low, every score that
  \<open>calculateRiskScore\<close> returns is at least 70.
\<close>

theorem calculateRiskScore_unsafe_floor:
  assumes ret: "calculateRiskScore medication w = Inr s"
    and tri: "getTrimester w = Inr t"
    and td: "trimesterDataOf medication (number t) = Some td"
    and unsafe: "td_safe td = Some False"
    and notlow: "td_risk td \<noteq> Some ''low''"
  shows "70 \<le> s"
proof -
  from ret tri td obtain x where s: "s = min (Math_round (applyOverride (Some td) x)) 100"
    by (auto simp add: calculateRiskScore_def Let_def split: sum.splits option.splits)
  have "of_int 70 \<le> applyOverride (Some td) x"
    using applyOverride_unsafe [OF unsafe notlow, of x] by simp
  then have "70 \<le> Math_round (applyOverride (Some td) x)"
    by (rule Math_round_ge)
  with s show ?thesis by simp
qed

theorem calculateRiskScore_unsafe_floor_witness:
  "calculateRiskScore
     \<lparr> med_name = Some ''TestMed'', genericName = Some ''TestMed'', brandNames = None,
       pregnancyCategory = Some \<lparr> fda = Some ''C'',
         trimester1 = Some \<lparr> td_safe = Some False, td_risk = Some ''high'',
                             td_warnings = None, td_alternatives = None \<rparr>,
         trimester2 = None, trimester3 = None \<rparr> \<rparr> 6 = Inr 90 \<and> (70::int) \<le> 90"
proof -
  let ?td = "\<lparr> td_safe = Some False, td_risk = Some ''high'',
                td_warnings = None, td_alternatives = None \<rparr>"
  let ?m = "\<lparr> med_name = Some ''TestMed'', genericName = Some ''TestMed'', brandNames = None,
       pregnancyCategory = Some \<lparr> fda = Some ''C'', trimester1 = Some ?td,
         trimester2 = None, trimester3 = None \<rparr> \<rparr>"
  have r: "calculateRiskScore ?m 6 = Inr 90"
    by (simp add: calculateRiskScore_defs)
  have t: "getTrimester 6 = Inr (spreadTrimester FIRST 1 6)"
    by (simp add: getTrimester_def validateWeek_def FIRST_def)
  have d: "trimesterDataOf ?m (number (spreadTrimester FIRST 1 6)) = Some ?td"
    by (simp add: trimesterDataOf_def trimester_consts)
  have "(70::int) \<le> 90"
    by (rule calculateRiskScore_unsafe_floor [OF r t d]) simp_all
  with r show ?thesis by simp
qed

text \<open>
  C7. A record of category N, the category the data builder writes for an unclassified
  medication, is rejected: \<open>FDA_CATEGORIES\<close> has no entry N and \<open>calculateRiskScore\<close> fails
  with \<open>Invalid FDA category: N\<close>. The C-tier default applies only when the category is
  absent; the same record without a category, or with category C, scores 50 at week 20.
\<close>

theorem calculateRiskScore_category_N:
  "calculateRiskScore
     \<lparr> med_name = Some ''TestMed'', genericName = Some ''TestMed'', brandNames = None,
       pregnancyCategory = Some \<lparr> fda = Some ''N'', trimester1 = None,
         trimester2 = None, trimester3 = None \<rparr> \<rparr> 20 = Inl (InvalidFDACategory ''N'') \<and>
   calculateRiskScore
     \<lparr> med_name = Some ''TestMed'', genericName = Some ''TestMed'', brandNames = None,
       pregnancyCategory = Some \<lparr> fda = None, trimester1 = None,
         trimester2 = None, trimester3 = None \<rparr> \<rparr> 20 = Inr 50 \<and>
   calculateRiskScore
     \<lparr> med_name = Some ''TestMed'', genericName = Some ''TestMed'', brandNames = None,
       pregnancyCategory = Some \<lparr> fda = Some ''C'', trimester1 = None,
         trimester2 = None, trimester3 = None \<rparr> \<rparr> 20 = Inr 50"
  by (simp add: calculateRiskScore_defs)

section \<open>Properties of the interaction checker\<close>

lemma getTrimester_valid:
  assumes "1 \<le> w" and "w \<le> 40"
  shows "\<exists>t. getTrimester w = Inr t \<and> (number t = 1 \<or> number t = 2 \<or> number t = 3)"
  using assms by (auto simp add: getTrimester_def validateWeek_def trimester_consts)

lemma getTrimester_invalid:
  assumes "w < 1 \<or> 40 < w"
  shows "getTrimester w =
    Inl (if w < 1 \<or> 45 < w then INVALID_WEEK w else InvalidPregnancyWeek w)"
  using assms by (auto simp add: getTrimester_def validateWeek_def trimester_consts)

text \<open>Past the validation of the week, the only exception of the two iterations is a \<open>TypeError\<close>.\<close>

lemma checkIndividual_error: "checkIndividual db n x st = Inl e \<Longrightarrow> e = TypeError"
  by (auto simp add: checkIndividual_def Let_def split: prod.splits option.splits if_splits)

lemma checkPair_error: "checkPair db n x y st = Inl e \<Longrightarrow> e = TypeError"
  by (auto simp add: checkPair_def Let_def split: prod.splits option.splits if_splits)

lemma forEachE_error:
  assumes "\<And>x st e. f x st = Inl e \<Longrightarrow> e = E"
  shows "forEachE f xs st = Inl e \<Longrightarrow> e = E"
  using assms by (induction xs arbitrary: st) (auto split: sum.splits)

lemma forEachE_checkIndividual_error:
  "forEachE (checkIndividual db n) xs st = Inl e \<Longrightarrow> e = TypeError"
  by (rule forEachE_error [of "checkIndividual db n" TypeError xs st e])
    (auto dest: checkIndividual_error)

lemma forEachE_checkPair_error:
  "forEachE (checkPair db n x) xs st = Inl e \<Longrightarrow> e = TypeError"
  by (rule forEachE_error [of "checkPair db n x" TypeError xs st e])
    (auto dest: checkPair_error)

lemma checkPairs_error: "checkPairs db n xs st = Inl e \<Longrightarrow> e = TypeError"
proof (induction xs arbitrary: st)
  case Nil
  then show ?case by simp
next
  case (Cons x xs)
  show ?case
  proof (cases "forEachE (checkPair db n x) xs st")
    case (Inl e')
    with Cons.prems have "e = e'" by simp
    with Inl show ?thesis by (simp add: forEachE_checkPair_error)
  next
    case (Inr st')
    with Cons.prems have "checkPairs db n xs st' = Inl e" by simp
    then show ?thesis by (rule Cons.IH)
  qed
qed

text \<open>
  C6, as stated, has \<open>checkPregnancyInteractions\<close> return an empty list of findings for an
  empty medication list. The function rejects an empty list before it looks at the week.
\<close>

theorem checkPregnancyInteractions_empty_counterexample:
  "checkPregnancyInteractions exampleStore [] 20 = Inl NonEmptyArrayRequired \<and>
   validateWeek 20 = Inr True"
  by (simp add: checkPregnancyInteractions_def validateWeek_def)

text \<open>
  C6, amended. \<open>checkPregnancyInteractions\<close> fails on an empty medication list, whatever the
  week. On a list that is not empty it fails with an out-of-range-week error when the week
  is below 1 or above 40, and only then: for a week from 1 to 40 it fails neither with a
  week error nor with the empty-list error.
\<close>

theorem checkPregnancyInteractions_failures:
  "checkPregnancyInteractions db [] w = Inl NonEmptyArrayRequired \<and>
   (names \<noteq> [] \<and> (w < 1 \<or> 40 < w) \<longrightarrow>
      checkPregnancyInteractions db names w =
        Inl (if w < 1 \<or> 45 < w then INVALID_WEEK w else InvalidPregnancyWeek w)) \<and>
   (names \<noteq> [] \<and> 1 \<le> w \<and> w \<le> 40 \<longrightarrow>
      (\<forall>k. checkPregnancyInteractions db names w \<noteq> Inl (INVALID_WEEK k) \<and>
           checkPregnancyInteractions db names w \<noteq> Inl (InvalidPregnancyWeek k) \<and>
           checkPregnancyInteractions db names w \<noteq> Inl NonEmptyArrayRequired))"
proof (intro conjI impI allI)
  show "checkPregnancyInteractions db [] w = Inl NonEmptyArrayRequired"
    by (simp add: checkPregnancyInteractions_def)
next
  assume "names \<noteq> [] \<and> (w < 1 \<or> 40 < w)"
  then show "checkPregnancyInteractions db names w =
        Inl (if w < 1 \<or> 45 < w then INVALID_WEEK w else InvalidPregnancyWeek w)"
    using getTrimester_invalid [of w]
    by (auto simp add: checkPregnancyInteractions_def validateWeek_def)
next
  fix k
  assume a: "names \<noteq> [] \<and> 1 \<le> w \<and> w \<le> 40"
  then obtain t where t: "getTrimester w = Inr t"
    using getTrimester_valid [of w] by blast
  have "\<And>e. checkPregnancyInteractions db names w = Inl e \<Longrightarrow> e = TypeError"
    using a t
    by (auto simp add: checkPregnancyInteractions_def validateWeek_def
        split: sum.splits if_splits prod.splits
        dest: checkPairs_error forEachE_checkIndividual_error)
  then show "checkPregnancyInteractions db names w \<noteq> Inl (INVALID_WEEK k)"
    and "checkPregnancyInteractions db names w \<noteq> Inl (InvalidPregnancyWeek k)"
    and "checkPregnancyInteractions db names w \<noteq> Inl NonEmptyArrayRequired"
    by fastforce+
qed

theorem checkPregnancyInteractions_failures_witness:
  "checkPregnancyInteractions exampleStore [''Acetaminophen''] 0 = Inl (INVALID_WEEK 0) \<and>
   checkPregnancyInteractions exampleStore [''Acetaminophen''] 41 =
     Inl (InvalidPregnancyWeek 41) \<and>
   checkPregnancyInteractions exampleStore [''Acetaminophen''] 20 \<noteq> Inl (INVALID_WEEK 20) \<and>
   map_sum id interactions
     (checkPregnancyInteractions exampleStore [''Acetaminophen''] 20) = Inr []"
proof -
  have e: "map_sum id interactions
      (checkPregnancyInteractions exampleStore [''Acetaminophen''] 20) = Inr []"
    by code_simp
  show ?thesis
    using checkPregnancyInteractions_failures [of exampleStore 0 "[''Acetaminophen'']"]
      checkPregnancyInteractions_failures [of exampleStore 41 "[''Acetaminophen'']"]
      checkPregnancyInteractions_failures [of exampleStore 20 "[''Acetaminophen'']"] e
    by simp
qed

section \<open>Properties of the composite risk calculator\<close>

lemma mapE_Inr_D: "mapE f xs = Inr ys \<Longrightarrow> list_all2 (\<lambda>x y. f x = Inr y) xs ys"
  by (induction xs arbitrary: ys) (auto split: sum.splits)

lemma mapE_Inr_I: "list_all2 (\<lambda>x y. f x = Inr y) xs ys \<Longrightarrow> mapE f xs = Inr ys"
  by (induction rule: list_all2_induct) auto

lemma list_all2_right_witness:
  "list_all2 P xs ys \<Longrightarrow> y \<in> set ys \<Longrightarrow> \<exists>x\<in>set xs. P x y"
  by (induction rule: list_all2_induct) auto

lemma mapE_exists:
  assumes "\<forall>x\<in>set xs. \<exists>y. f x = Inr y"
  shows "\<exists>ys. mapE f xs = Inr ys"
  using assms by (induction xs) (auto split: sum.splits)

lemma forEachE_unchanged:
  assumes "\<forall>x\<in>set xs. f x st = Inr st"
  shows "forEachE f xs st = Inr st"
  using assms by (induction xs) auto

lemma checkIndividual_not_found:
  "findMedication db x = None \<Longrightarrow> checkIndividual db n x st = Inr st"
  by (simp add: checkIndividual_def split: prod.splits)

lemma checkPair_not_found:
  "findMedication db x = None \<or> findMedication db y = None \<Longrightarrow> checkPair db n x y st = Inr st"
  by (auto simp add: checkPair_def split: prod.splits option.splits)

lemma checkPairs_not_found:
  assumes "\<forall>x\<in>set xs. findMedication db x = None"
  shows "checkPairs db n xs st = Inr st"
  using assms
proof (induction xs)
  case Nil
  then show ?case by simp
next
  case (Cons x xs)
  then have "forEachE (checkPair db n x) xs st = Inr st"
    by (intro forEachE_unchanged) (simp add: checkPair_not_found)
  with Cons show ?case by simp
qed

lemma checkMedicationSafety_found:
  assumes "checkMedicationSafety db x w = Inr c"
  shows "(\<exists>a. c = SafetyFound a) \<longleftrightarrow> findMedication db x \<noteq> None"
proof (cases "findMedication db x")
  case None
  with assms show ?thesis
    by (auto simp add: checkMedicationSafety_def split: if_splits sum.splits)
next
  case (Some med)
  with assms show ?thesis
    by (auto simp add: checkMedicationSafety_def Let_def split: if_splits sum.splits)
qed

lemma calculateSingleMedicationRisk_found:
  assumes "calculateSingleMedicationRisk db x w = Inr m"
  shows "found m \<longleftrightarrow> findMedication db x \<noteq> None"
proof -
  from assms obtain c where c: "checkMedicationSafety db x w = Inr c"
    by (auto simp add: calculateSingleMedicationRisk_def split: sum.splits)
  show ?thesis
  proof (cases c)
    case (SafetyNotFound n)
    with assms c checkMedicationSafety_found [OF c] show ?thesis
      by (auto simp add: calculateSingleMedicationRisk_def split: sum.splits)
  next
    case (SafetyFound a)
    with assms c checkMedicationSafety_found [OF c] show ?thesis
      by (auto simp add: calculateSingleMedicationRisk_def split: sum.splits)
  qed
qed

lemma calculateSingleMedicationRisk_not_found:
  assumes "x \<noteq> []" and "1 \<le> w" and "w \<le> 45" and "findMedication db x = None"
  shows "\<exists>m. calculateSingleMedicationRisk db x w = Inr m"
  using assms
  by (simp add: calculateSingleMedicationRisk_def checkMedicationSafety_def validateWeek_def)

text \<open>
  C10, as stated, covers every list of names that the store does not know. The empty
  string is such a name, and \<open>checkMedicationSafety\<close> rejects it before the lookup:
  the whole call fails.
\<close>

theorem calculateMultipleMedicationRisk_empty_name_counterexample:
  "findMedication exampleStore '''' = None \<and>
   calculateMultipleMedicationRisk exampleStore [''''] 20 = Inl MedicationNameRequired"
  by code_simp

text \<open>
  C10, amended. For every list that is not empty, of names that are not empty and that the
  store does not know, and every week from 1 to 40, \<open>calculateMultipleMedicationRisk\<close>
  returns: the composite score is 0, the tier is low, \<open>safe\<close> is true, the highest individual
  risk is \<open>-Infinity\<close>, every entry has \<open>found == false\<close> and there is no finding.
\<close>

theorem calculateMultipleMedicationRisk_none_found:
  assumes names: "names \<noteq> []"
    and unknown: "\<forall>x\<in>set names. x \<noteq> [] \<and> findMedication db x = None"
    and week: "1 \<le> w" "w \<le> 40"
  shows "\<exists>r. calculateMultipleMedicationRisk db names w = Inr r \<and>
           riskScore r = 0 \<and> overallRiskLevel r = ''low'' \<and> safe r \<and>
           highestIndividualRisk r = NegInfinity \<and>
           length (medicationRisks r) = length names \<and>
           (\<forall>m\<in>set (medicationRisks r). \<not> found m) \<and>
           interactionRisks r = []"
proof -
  obtain t where t: "getTrimester w = Inr t"
    using getTrimester_valid [OF week] by blast
  have v: "validateWeek w = Inr True"
    using week by (simp add: validateWeek_def)
  have "\<forall>x\<in>set names. \<exists>m. calculateSingleMedicationRisk db x w = Inr m"
  proof
    fix x assume "x \<in> set names"
    with unknown have "x \<noteq> []" and "findMedication db x = None"
      by simp_all
    with week show "\<exists>m. calculateSingleMedicationRisk db x w = Inr m"
      by (simp add: calculateSingleMedicationRisk_not_found)
  qed
  then have "\<exists>risks. mapE (\<lambda>medName. calculateSingleMedicationRisk db medName w) names = Inr risks"
    by (rule mapE_exists)
  then obtain risks
    where risks: "mapE (\<lambda>medName. calculateSingleMedicationRisk db medName w) names = Inr risks"
    ..
  then have all2: "list_all2 (\<lambda>x m. calculateSingleMedicationRisk db x w = Inr m) names risks"
    by (rule mapE_Inr_D)
  have len: "length risks = length names"
    using all2 by (simp add: list_all2_lengthD)
  have nf: "\<forall>m\<in>set risks. \<not> found m"
  proof
    fix m assume "m \<in> set risks"
    with all2 obtain x where "x \<in> set names" and "calculateSingleMedicationRisk db x w = Inr m"
      by (auto dest: list_all2_right_witness)
    then show "\<not> found m"
      using unknown calculateSingleMedicationRisk_found [of db x w m] by simp
  qed
  then have flt: "filter found risks = []"
    by (simp add: filter_empty_conv)
  have ind: "forEachE (checkIndividual db (number t)) names ([], ''none'') = Inr ([], ''none'')"
    using unknown by (intro forEachE_unchanged) (simp add: checkIndividual_not_found)
  have prs: "checkPairs db (number t) names ([], ''none'') = Inr ([], ''none'')"
    using unknown by (simp add: checkPairs_not_found)
  have ic: "checkPregnancyInteractions db names w =
      Inr \<lparr> ic_weekOfPregnancy = w, ic_trimester = number t, ic_medications = names,
            interactionsFound = 0, interactions = [], highestSeverity = ''none'',
            ic_safe = True, ic_requiresProviderConsent = False,
            ic_requiresObstetrician = False \<rparr>"
    using names v t ind prs by (simp add: checkPregnancyInteractions_def)
  have ex: "list_ex (\<lambda>m. found m \<and> P m) risks = False" for P
    using nf by (simp add: list_ex_iff)
  have comp: "calculateCompositeScore risks ic = 0" for ic
    using flt by (simp add: calculateCompositeScore_def)
  have low: "getRiskLevelFromScore 0 = ''low''"
    by (simp add: getRiskLevelFromScore_def RISK_THRESHOLDS_def)
  have "calculateMultipleMedicationRisk db names w =
      Inr \<lparr> cr_weekOfPregnancy = w, trimesterNumber = number t,
            medicationCount = length names, medicationRisks = risks,
            interactionRisks = [], overallRiskLevel = ''low'', riskScore = 0,
            highestIndividualRisk = NegInfinity, safe = True,
            hasCategoryX = False, hasCategoryD = False,
            requiresProviderConsent = False, requiresObstetrician = False \<rparr>"
    unfolding calculateMultipleMedicationRisk_def Let_def
    by (simp add: names v t risks ic flt comp low ex RISK_THRESHOLDS_def)
  then show ?thesis
    using len nf by simp
qed

theorem calculateMultipleMedicationRisk_none_found_witness:
  "\<exists>r. calculateMultipleMedicationRisk exampleStore [''UnknownDrug'', ''Foo''] 20 = Inr r \<and>
       riskScore r = 0 \<and> overallRiskLevel r = ''low'' \<and> safe r \<and>
       highestIndividualRisk r = NegInfinity \<and>
       length (medicationRisks r) = length [''UnknownDrug'', ''Foo''] \<and>
       (\<forall>m\<in>set (medicationRisks r). \<not> found m) \<and>
       interactionRisks r = []"
proof -
  have "findMedication exampleStore ''UnknownDrug'' = None"
    and "findMedication exampleStore ''Foo'' = None"
    by code_simp+
  then have "\<forall>x\<in>set [''UnknownDrug'', ''Foo'']. x \<noteq> [] \<and> findMedication exampleStore x = None"
    by simp
  with calculateMultipleMedicationRisk_none_found
    [of "[''UnknownDrug'', ''Foo'']" exampleStore 20]
  show ?thesis by simp
qed

lemma foldl_plus_sum_list:
  "foldl (\<lambda>sum m. sum + f m) a xs = a + sum_list (map f xs)" for a :: int
  by (induction xs arbitrary: a) simp_all

lemma maxOf_Max: "maxOf x xs = Max (set (x # xs))"
  by (simp only: maxOf_def Max.set_eq_fold)

lemma interactionPenalty_add:
  "interactionPenalty f b = b + spec_severityPenalty (i_severity f)"
  by (simp add: interactionPenalty_def spec_severityPenalty_def)

lemma fold_interactionPenalty:
  "fold interactionPenalty fs b = b + sum_list (map (spec_severityPenalty \<circ> i_severity) fs)"
  by (induction fs arbitrary: b) (simp_all add: interactionPenalty_add)

lemma calculateCompositeScore_spec:
  assumes "filter found risks \<noteq> []"
  shows "calculateCompositeScore risks ic =
    spec_compositeScore (map riskScoreOr0 (filter found risks))
      (map i_severity (interactions ic))"
proof -
  from assms obtain v vs where vs: "filter found risks = v # vs"
    by (cases "filter found risks") auto
  have poly: "(if 3 \<le> length (v # vs)
        then b + of_nat ((length (v # vs) - 2) * 3) else b) =
      b + spec_polypharmacyPenalty (length (v # vs))" for b :: rat
    by (simp add: spec_polypharmacyPenalty_def)
  show ?thesis
    unfolding calculateCompositeScore_def spec_compositeScore_def vs list.case Let_def poly
    by (simp add: foldl_plus_sum_list maxOf_Max fold_interactionPenalty spec_mean_def
        comp_def algebra_simps del: Max_insert set_simps)
qed

lemma calculateMultipleMedicationRisk_riskScore:
  assumes "calculateMultipleMedicationRisk db names w = Inr r"
  shows "\<exists>ic. checkPregnancyInteractions db names w = Inr ic \<and>
          interactionRisks r = interactions ic \<and>
          riskScore r = calculateCompositeScore (medicationRisks r) ic"
  using assms
  by (auto simp add: calculateMultipleMedicationRisk_def Let_def split: if_splits sum.splits)

text \<open>
  C1. Whenever \<open>calculateMultipleMedicationRisk\<close> returns and at least one medication was
  found, the composite score it returns is the score the specification words: 60% of the
  largest individual score plus 40% of the mean individual score over the found
  medications, plus the flat penalty of each triggered finding (20 for critical, 15 for
  high, 10 for moderate, added up), plus 3 for each found medication beyond the second
  when at least three were found, rounded and capped at 100.
\<close>

theorem calculateMultipleMedicationRisk_composite_formula:
  assumes "calculateMultipleMedicationRisk db names w = Inr r"
    and "filter found (medicationRisks r) \<noteq> []"
  shows "riskScore r =
      spec_compositeScore (map riskScoreOr0 (filter found (medicationRisks r)))
        (map i_severity (interactionRisks r)) \<and>
    spec_severityPenalty ''critical'' > spec_severityPenalty ''high'' \<and>
    spec_severityPenalty ''high'' > spec_severityPenalty ''moderate'' \<and>
    spec_severityPenalty ''moderate'' > 0"
proof -
  from assms(1) obtain ic where "interactionRisks r = interactions ic"
    and "riskScore r = calculateCompositeScore (medicationRisks r) ic"
    using calculateMultipleMedicationRisk_riskScore by blast
  then show ?thesis
    using calculateCompositeScore_spec [OF assms(2), of ic]
    by (simp add: spec_severityPenalty_def)
qed

theorem calculateMultipleMedicationRisk_composite_formula_witness:
  "\<exists>r. calculateMultipleMedicationRisk exampleStore
         [''Ibuprofen'', ''Tylenol'', ''Levothyroxine''] 20 = Inr r \<and>
       map riskScoreOr0 (filter found (medicationRisks r)) = [75, 25, 10] \<and>
       map i_severity (interactionRisks r) = [''high''] \<and>
       riskScore r = spec_compositeScore [75, 25, 10] [''high''] \<and>
       riskScore r = 78"
proof -
  let ?c = "calculateMultipleMedicationRisk exampleStore
         [''Ibuprofen'', ''Tylenol'', ''Levothyroxine''] 20"
  have "map_sum id (\<lambda>r. (riskScore r, map riskScoreOr0 (filter found (medicationRisks r)),
            map i_severity (interactionRisks r))) ?c = Inr (78, [75, 25, 10], [''high''])"
    by code_simp
  then obtain r where r: "?c = Inr r"
    and s: "riskScore r = 78"
    and m: "map riskScoreOr0 (filter found (medicationRisks r)) = [75, 25, 10]"
    and i: "map i_severity (interactionRisks r) = [''high'']"
    by (cases ?c) auto
  from m have "filter found (medicationRisks r) \<noteq> []"
    by auto
  from calculateMultipleMedicationRisk_composite_formula [OF r this] r s m i
  show ?thesis by simp
qed

section \<open>The findings of a call, step by step\<close>

lemma checkIndividual_char:
  "checkIndividual db n x (is, hs) =
     (if individualFails db n x then Inl TypeError
      else Inr (is @ individualFindings db n x, individualSeverity db n x hs))"
  by (simp add: checkIndividual_def individualFails_def individualFindings_def
      individualSeverity_def Let_def split: option.splits)

lemma individualSeverity_cases:
  "individualSeverity db n x = (\<lambda>hs. hs) \<or>
   individualSeverity db n x = (\<lambda>hs. ''critical'') \<or>
   individualSeverity db n x = (\<lambda>hs. if hs \<noteq> ''critical'' then ''high'' else hs)"
proof (cases "findMedication db x")
  case None
  then show ?thesis
    by (simp add: individualSeverity_def checkIndividual_def fun_eq_iff)
next
  case (Some med)
  then show ?thesis
    by (cases "genericName med")
      (simp_all add: individualSeverity_def checkIndividual_def fun_eq_iff Let_def)
qed

lemma individualSeverity_commute:
  "individualSeverity db n a (individualSeverity db n b hs) =
   individualSeverity db n b (individualSeverity db n a hs)"
  using individualSeverity_cases [of db n a] individualSeverity_cases [of db n b]
  by (elim disjE) simp_all

lemma checkPair_char:
  "checkPair db n x y (is, hs) =
     (if pairFails db n (x, y) then Inl TypeError
      else Inr (is @ pairFindings db n (x, y), pairSeverity db n (x, y) hs))"
  by (simp add: checkPair_def pairFails_def pairFindings_def pairSeverity_def Let_def
      split: option.splits)

lemma pairInteractionKey_sym: "pairInteractionKey g1 g2 = pairInteractionKey g2 g1"
proof -
  have "sort [a, b] = sort [b, a]" for a b :: string
    by (cases "a \<le> b") auto
  then show ?thesis by (simp only: pairInteractionKey_def)
qed

lemma checkPair_sym: "checkPair db n x y st = checkPair db n y x st"
proof (cases "findMedication db x")
  case None
  then show ?thesis
    by (simp add: checkPair_def split: prod.splits option.splits)
next
  case x: (Some mx)
  show ?thesis
  proof (cases "findMedication db y")
    case None
    with x show ?thesis
      by (simp add: checkPair_def split: prod.splits option.splits)
  next
    case y: (Some my)
    show ?thesis
    proof (cases "genericName mx")
      case None
      with x y show ?thesis
        by (simp add: checkPair_def split: prod.splits option.splits)
    next
      case gx: (Some g1)
      show ?thesis
      proof (cases "genericName my")
        case None
        with x y gx show ?thesis
          by (simp add: checkPair_def split: prod.splits option.splits)
      next
        case (Some g2)
        with x y gx show ?thesis
          by (simp add: checkPair_def pairInteractionKey_sym [of g1 g2]
              split: prod.splits option.splits)
      qed
    qed
  qed
qed

lemma pairFails_sym: "pairFails db n (x, y) = pairFails db n (y, x)"
  by (simp add: pairFails_def checkPair_sym [of db n x y])

lemma pairFindings_sym: "pairFindings db n (x, y) = pairFindings db n (y, x)"
  by (simp add: pairFindings_def checkPair_sym [of db n x y])

lemma pairSeverity_sym: "pairSeverity db n (x, y) hs = pairSeverity db n (y, x) hs"
  by (simp add: pairSeverity_def checkPair_sym [of db n x y])

lemma forEachE_checkIndividual_char:
  "forEachE (checkIndividual db n) xs (is, hs) =
     (if \<exists>x\<in>set xs. individualFails db n x then Inl TypeError
      else Inr (is @ concat (map (individualFindings db n) xs),
                fold (individualSeverity db n) xs hs))"
  by (induction xs arbitrary: "is" hs) (simp_all add: checkIndividual_char)

lemma forEachE_checkPair_char:
  "forEachE (checkPair db n x) ys (is, hs) =
     (if \<exists>p\<in>set (map (Pair x) ys). pairFails db n p then Inl TypeError
      else Inr (is @ concat (map (pairFindings db n) (map (Pair x) ys)),
                fold (pairSeverity db n) (map (Pair x) ys) hs))"
  by (induction ys arbitrary: "is" hs) (simp_all add: checkPair_char)

lemma checkPairs_char:
  "checkPairs db n xs (is, hs) =
     (if \<exists>p\<in>set (allPairs xs). pairFails db n p then Inl TypeError
      else Inr (is @ concat (map (pairFindings db n) (allPairs xs)),
                fold (pairSeverity db n) (allPairs xs) hs))"
proof (induction xs arbitrary: "is" hs)
  case Nil
  then show ?case by simp
next
  case (Cons x xs)
  show ?case
    by (simp add: forEachE_checkPair_char Cons.IH del: set_map) blast
qed

lemma checkPregnancyInteractions_char:
  assumes t: "getTrimester w = Inr t" and names: "names \<noteq> []"
  shows "checkPregnancyInteractions db names w =
    (if (\<exists>x\<in>set names. individualFails db (number t) x) \<or>
        (\<exists>p\<in>set (allPairs names). pairFails db (number t) p)
     then Inl TypeError
     else (let collected = concat (map (individualFindings db (number t)) names) @
                           concat (map (pairFindings db (number t)) (allPairs names));
               highest = fold (pairSeverity db (number t)) (allPairs names)
                           (fold (individualSeverity db (number t)) names ''none'')
           in Inr \<lparr> ic_weekOfPregnancy = w, ic_trimester = number t,
                 ic_medications = names, interactionsFound = length collected,
                 interactions = collected, highestSeverity = highest,
                 ic_safe = (highest = ''none''),
                 ic_requiresProviderConsent = (highest = ''high'' \<or> highest = ''critical''),
                 ic_requiresObstetrician = (highest = ''critical'') \<rparr>))"
proof -
  have v: "validateWeek w = Inr True"
    using t by (auto simp add: getTrimester_def validateWeek_def split: sum.splits if_splits)
  show ?thesis
    unfolding checkPregnancyInteractions_def
    by (simp add: names v t forEachE_checkIndividual_char checkPairs_char Let_def)
qed

lemma getTrimester_of_check:
  assumes "checkPregnancyInteractions db names w = Inr r"
  shows "names \<noteq> [] \<and> (\<exists>t. getTrimester w = Inr t)"
  using assms
  by (auto simp add: checkPregnancyInteractions_def split: if_splits sum.splits)

text \<open>
  C8, as stated, makes the list of findings independent of the order of the two names. The
  findings for the single medications are appended in the order of the names: for
  atorvastatin (category X) and lisinopril (category D) at week 20 the two orders give the
  same two findings in opposite orders.
\<close>

theorem checkPregnancyInteractions_order_counterexample:
  "map_sum id (map i_medications \<circ> interactions)
     (checkPregnancyInteractions exampleStore [''Atorvastatin'', ''Lisinopril''] 20) =
     Inr ([''Atorvastatin''] # [''Lisinopril''] # []) \<and>
   map_sum id (map i_medications \<circ> interactions)
     (checkPregnancyInteractions exampleStore [''Lisinopril'', ''Atorvastatin''] 20) =
     Inr ([''Lisinopril''] # [''Atorvastatin''] # []) \<and>
   map_sum id interactions
     (checkPregnancyInteractions exampleStore [''Atorvastatin'', ''Lisinopril''] 20) \<noteq>
   map_sum id interactions
     (checkPregnancyInteractions exampleStore [''Lisinopril'', ''Atorvastatin''] 20)"
proof -
  let ?al = "checkPregnancyInteractions exampleStore [''Atorvastatin'', ''Lisinopril''] 20"
  let ?la = "checkPregnancyInteractions exampleStore [''Lisinopril'', ''Atorvastatin''] 20"
  have al: "map_sum id (map i_medications \<circ> interactions) ?al =
      Inr ([''Atorvastatin''] # [''Lisinopril''] # [])"
    by code_simp
  have la: "map_sum id (map i_medications \<circ> interactions) ?la =
      Inr ([''Lisinopril''] # [''Atorvastatin''] # [])"
    by code_simp
  have "map_sum id interactions ?al \<noteq> map_sum id interactions ?la"
  proof
    assume "map_sum id interactions ?al = map_sum id interactions ?la"
    then have "map_sum id (map i_medications) (map_sum id interactions ?al) =
        map_sum id (map i_medications) (map_sum id interactions ?la)"
      by simp
    then have "map_sum id (map i_medications \<circ> interactions) ?al =
        map_sum id (map i_medications \<circ> interactions) ?la"
      by (simp add: sum.map_comp)
    with al la show False by simp
  qed
  with al la show ?thesis by simp
qed

text \<open>
  C8, amended. When \<open>checkPregnancyInteractions\<close> returns for the names \<open>a\<close>, \<open>b\<close>, it returns
  for \<open>b\<close>, \<open>a\<close> too, with the same findings up to their order, the same number of findings,
  the same highest severity and the same flags; and the lookup of a pair of generic names
  in \<open>PREGNANCY_INTERACTIONS\<close> gives the same rule for both orders of the pair.
\<close>

theorem checkPregnancyInteractions_swap:
  assumes "checkPregnancyInteractions db [a, b] w = Inr r1"
  shows "(\<exists>r2. checkPregnancyInteractions db [b, a] w = Inr r2 \<and>
            mset (interactions r2) = mset (interactions r1) \<and>
            interactionsFound r2 = interactionsFound r1 \<and>
            highestSeverity r2 = highestSeverity r1 \<and>
            ic_safe r2 = ic_safe r1 \<and>
            ic_requiresProviderConsent r2 = ic_requiresProviderConsent r1 \<and>
            ic_requiresObstetrician r2 = ic_requiresObstetrician r1) \<and>
         map_of PREGNANCY_INTERACTIONS (pairInteractionKey g1 g2) =
         map_of PREGNANCY_INTERACTIONS (pairInteractionKey g2 g1)"
proof
  from assms obtain t where t: "getTrimester w = Inr t"
    using getTrimester_of_check by blast
  let ?n = "number t"
  have ab: "checkPregnancyInteractions db [a, b] w = Inr r1"
    by (rule assms)
  have nofail: "\<not> individualFails db ?n a" "\<not> individualFails db ?n b"
    "\<not> pairFails db ?n (a, b)"
    using ab unfolding checkPregnancyInteractions_char [OF t, of "[a, b]" db, simplified]
    by (auto split: if_splits)
  have r1: "r1 =
      (let collected = individualFindings db ?n a @ individualFindings db ?n b @
                       pairFindings db ?n (a, b);
           highest = pairSeverity db ?n (a, b)
                       (individualSeverity db ?n b (individualSeverity db ?n a ''none''))
       in \<lparr> ic_weekOfPregnancy = w, ic_trimester = ?n,
             ic_medications = [a, b], interactionsFound = length collected,
             interactions = collected, highestSeverity = highest,
             ic_safe = (highest = ''none''),
             ic_requiresProviderConsent = (highest = ''high'' \<or> highest = ''critical''),
             ic_requiresObstetrician = (highest = ''critical'') \<rparr>)"
    using ab nofail unfolding checkPregnancyInteractions_char [OF t, of "[a, b]" db, simplified]
    by (simp add: Let_def)
  have ba: "checkPregnancyInteractions db [b, a] w = Inr
      (let collected = individualFindings db ?n b @ individualFindings db ?n a @
                       pairFindings db ?n (a, b);
           highest = pairSeverity db ?n (a, b)
                       (individualSeverity db ?n b (individualSeverity db ?n a ''none''))
       in \<lparr> ic_weekOfPregnancy = w, ic_trimester = ?n,
             ic_medications = [b, a], interactionsFound = length collected,
             interactions = collected, highestSeverity = highest,
             ic_safe = (highest = ''none''),
             ic_requiresProviderConsent = (highest = ''high'' \<or> highest = ''critical''),
             ic_requiresObstetrician = (highest = ''critical'') \<rparr>)"
    using nofail unfolding checkPregnancyInteractions_char [OF t, of "[b, a]" db, simplified]
    by (simp add: Let_def pairFails_sym [of db ?n b a] pairFindings_sym [of db ?n b a]
        pairSeverity_sym [of db ?n b a] individualSeverity_commute [of db ?n a b])
  show "\<exists>r2. checkPregnancyInteractions db [b, a] w = Inr r2 \<and>
            mset (interactions r2) = mset (interactions r1) \<and>
            interactionsFound r2 = interactionsFound r1 \<and>
            highestSeverity r2 = highestSeverity r1 \<and>
            ic_safe r2 = ic_safe r1 \<and>
            ic_requiresProviderConsent r2 = ic_requiresProviderConsent r1 \<and>
            ic_requiresObstetrician r2 = ic_requiresObstetrician r1"
    unfolding ba r1 by (simp add: Let_def)
next
  show "map_of PREGNANCY_INTERACTIONS (pairInteractionKey g1 g2) =
        map_of PREGNANCY_INTERACTIONS (pairInteractionKey g2 g1)"
    by (simp only: pairInteractionKey_sym [of g1 g2])
qed

theorem checkPregnancyInteractions_swap_witness:
  "\<exists>r1 r2.
     checkPregnancyInteractions exampleStore [''Atorvastatin'', ''Lisinopril''] 20 = Inr r1 \<and>
     checkPregnancyInteractions exampleStore [''Lisinopril'', ''Atorvastatin''] 20 = Inr r2 \<and>
     mset (interactions r2) = mset (interactions r1) \<and>
     interactionsFound r1 = 2 \<and> interactionsFound r2 = 2 \<and>
     highestSeverity r1 = ''critical'' \<and> highestSeverity r2 = ''critical''"
proof -
  let ?al = "checkPregnancyInteractions exampleStore [''Atorvastatin'', ''Lisinopril''] 20"
  have "map_sum id (\<lambda>r. (interactionsFound r, highestSeverity r)) ?al = Inr (2, ''critical'')"
    by code_simp
  then obtain r1 where r1: "?al = Inr r1"
    and "interactionsFound r1 = 2" and "highestSeverity r1 = ''critical''"
    by (cases ?al) auto
  with checkPregnancyInteractions_swap [OF r1] show ?thesis
    by auto
qed

section \<open>Polypharmacy\<close>

text \<open>Every score \<open>calculateRiskScore\<close> returns is at least 10, the baseline of category A.\<close>

lemma FDA_CATEGORIES_baseScore:
  "map_of FDA_CATEGORIES c = Some info \<Longrightarrow> 10 \<le> cat_baseScore info"
  by (auto simp add: FDA_CATEGORIES_def split: if_splits)

lemma getTrimester_multiplier: "getTrimester w = Inr t \<Longrightarrow> 1 \<le> riskMultiplier t"
  by (auto simp add: getTrimester_def trimester_consts split: sum.splits if_splits)

lemma applyCritical_ge: "0 \<le> x \<Longrightarrow> x \<le> applyCritical c x"
  by (simp add: applyCritical_def mult_le_cancel_left1)

lemma applyOverride_ge10: "10 \<le> x \<Longrightarrow> 10 \<le> applyOverride td x"
  by (cases td) (auto simp add: applyOverride_def Let_def)

lemma calculateRiskScore_ge10:
  assumes "calculateRiskScore m w = Inr s"
  shows "10 \<le> s"
proof -
  from assms obtain t c info
    where t: "getTrimester w = Inr t"
      and info: "map_of FDA_CATEGORIES (fdaOrC m) = Some info"
      and s: "s = min (Math_round (applyOverride (trimesterDataOf m (number t))
                (applyCritical c (of_int (cat_baseScore info) * riskMultiplier t)))) 100"
    by (auto simp add: calculateRiskScore_def Let_def split: sum.splits option.splits)
  have b: "(10::rat) \<le> of_int (cat_baseScore info)"
    using FDA_CATEGORIES_baseScore [OF info] by linarith
  have "10 * 1 \<le> of_int (cat_baseScore info) * riskMultiplier t"
    using b getTrimester_multiplier [OF t] by (intro mult_mono) simp_all
  then have "10 \<le> of_int (cat_baseScore info) * riskMultiplier t"
    by simp
  then have "10 \<le> applyCritical c (of_int (cat_baseScore info) * riskMultiplier t)"
    using applyCritical_ge [of "of_int (cat_baseScore info) * riskMultiplier t" c] by simp
  then have "of_int 10 \<le> applyOverride (trimesterDataOf m (number t))
      (applyCritical c (of_int (cat_baseScore info) * riskMultiplier t))"
    using applyOverride_ge10 by simp
  then have "10 \<le> Math_round (applyOverride (trimesterDataOf m (number t))
      (applyCritical c (of_int (cat_baseScore info) * riskMultiplier t)))"
    by (rule Math_round_ge)
  with s show ?thesis by simp
qed

lemma checkMedicationSafety_score:
  assumes "checkMedicationSafety db x w = Inr (SafetyFound a)"
  shows "10 \<le> sa_riskScore a \<and> (sa_safe a \<longrightarrow> sa_riskScore a \<le> 40)"
proof -
  from assms obtain med s where "calculateRiskScore med w = Inr s" and "sa_riskScore a = s"
    and "sa_safe a \<longrightarrow> s \<le> 40"
    by (auto simp add: checkMedicationSafety_def Let_def
        split: if_splits sum.splits option.splits)
  then show ?thesis
    using calculateRiskScore_ge10 by auto
qed

lemma calculateSingleMedicationRisk_safe:
  assumes "calculateSingleMedicationRisk db x w = Inr m" and "mr_safe m = Some True"
  shows "found m \<and> 10 \<le> riskScoreOr0 m \<and> riskScoreOr0 m \<le> 40"
proof -
  from assms(1) obtain c where c: "checkMedicationSafety db x w = Inr c"
    by (auto simp add: calculateSingleMedicationRisk_def split: sum.splits)
  show ?thesis
  proof (cases c)
    case (SafetyNotFound n)
    with assms c show ?thesis
      by (auto simp add: calculateSingleMedicationRisk_def split: sum.splits)
  next
    case (SafetyFound a)
    with assms c checkMedicationSafety_score [of db x w a] show ?thesis
      by (auto simp add: calculateSingleMedicationRisk_def riskScoreOr0_def split: sum.splits)
  qed
qed

lemma mapE_subseq:
  assumes "subseq ys xs" and "mapE f xs = Inr rs"
  shows "\<exists>rs'. mapE f ys = Inr rs' \<and> subseq rs' rs"
  using assms
proof (induction arbitrary: rs rule: list_emb.induct)
  case (list_emb_Nil ys)
  then show ?case by simp
next
  case (list_emb_Cons xs ys y)
  from list_emb_Cons.prems obtain r rs0 where "mapE f ys = Inr rs0" and "rs = r # rs0"
    by (auto split: sum.splits)
  with list_emb_Cons.IH [of rs0] show ?case by auto
next
  case (list_emb_Cons2 x y xs ys)
  from list_emb_Cons2.prems obtain r rs0
    where "f y = Inr r" and "mapE f ys = Inr rs0" and "rs = r # rs0"
    by (auto split: sum.splits)
  with list_emb_Cons2.IH [of rs0] list_emb_Cons2.hyps show ?case by auto
qed

lemma sum_list_subseq_nonneg:
  fixes h :: "'a \<Rightarrow> rat"
  assumes "subseq ys xs" and "\<And>x. 0 \<le> h x"
  shows "sum_list (map h ys) \<le> sum_list (map h xs)"
  using assms(1)
proof (induction rule: list_emb.induct)
  case (list_emb_Nil ys)
  then show ?case by (auto intro!: sum_list_nonneg simp add: assms(2))
next
  case (list_emb_Cons xs ys y)
  with assms(2) [of y] show ?case by simp
next
  case (list_emb_Cons2 x y xs ys)
  then show ?case by simp
qed

lemma sum_list_subseq_lower:
  fixes h :: "'a \<Rightarrow> int"
  assumes "subseq ys xs" and "\<forall>x\<in>set xs. c \<le> h x"
  shows "sum_list (map h ys) + c * (int (length xs) - int (length ys)) \<le> sum_list (map h xs)"
  using assms
proof (induction rule: list_emb.induct)
  case (list_emb_Nil ys)
  then show ?case
  proof (induction ys)
    case Nil
    then show ?case by simp
  next
    case (Cons y ys)
    then show ?case by (simp add: algebra_simps)
  qed
next
  case (list_emb_Cons xs ys y)
  then show ?case by (simp add: algebra_simps)
next
  case (list_emb_Cons2 x y xs ys)
  then show ?case by simp
qed

lemma subseq_allPairs:
  assumes "subseq ys xs"
  shows "subseq (allPairs ys) (allPairs xs)"
  using assms
proof (induction rule: list_emb.induct)
  case (list_emb_Nil ys)
  then show ?case by simp
next
  case (list_emb_Cons xs ys y)
  then show ?case by (simp add: subseq_drop_many)
next
  case (list_emb_Cons2 x y xs ys)
  then show ?case
    by (auto intro!: list_emb_append_mono subseq_map)
qed

lemma sum_list_concat_map:
  fixes p :: "'b \<Rightarrow> rat"
  shows "sum_list (map p (concat (map F xs))) = sum_list (map (\<lambda>x. sum_list (map p (F x))) xs)"
  by (induction xs) simp_all

lemma spec_severityPenalty_nonneg: "0 \<le> spec_severityPenalty s"
  by (simp add: spec_severityPenalty_def)

lemma penalties_subseq:
  assumes "subseq ys xs"
  shows "sum_list (map (spec_severityPenalty \<circ> i_severity) (concat (map F ys))) \<le>
         sum_list (map (spec_severityPenalty \<circ> i_severity) (concat (map F xs)))"
  unfolding sum_list_concat_map
  by (rule sum_list_subseq_nonneg [OF assms])
    (auto intro!: sum_list_nonneg simp add: spec_severityPenalty_nonneg)

lemma subseq_set: "subseq ys xs \<Longrightarrow> set ys \<subseteq> set xs"
  by (auto elim: list_emb_set)

lemma spec_compositeScore_mono:
  assumes l2: "length s2 = 2" and l4: "length s4 = 4"
    and sub: "set s2 \<subseteq> set s4"
    and more: "sum_list s2 + 20 \<le> sum_list s4"
    and small: "sum_list s2 \<le> 80"
    and pen: "sum_list (map spec_severityPenalty v2) \<le> sum_list (map spec_severityPenalty v4)"
  shows "spec_compositeScore s2 v2 \<le> spec_compositeScore s4 v4"
proof -
  from l2 have "set s2 \<noteq> {}" by auto
  with sub have "Max (set s2) \<le> Max (set s4)"
    by (intro Max_mono) simp_all
  then have m: "(of_int (Max (set s2)) :: rat) \<le> of_int (Max (set s4))"
    by simp
  from more have s: "(of_int (sum_list s2) :: rat) + 20 \<le> of_int (sum_list s4)"
    by (metis of_int_add of_int_le_iff of_int_numeral)
  from small have b: "(of_int (sum_list s2) :: rat) \<le> 80"
    by (metis of_int_le_iff of_int_numeral)
  have "60 / 100 * of_int (Max (set s2)) + 40 / 100 * spec_mean s2 +
          sum_list (map spec_severityPenalty v2) + spec_polypharmacyPenalty (length s2) \<le>
        60 / 100 * of_int (Max (set s4)) + 40 / 100 * spec_mean s4 +
          sum_list (map spec_severityPenalty v4) + spec_polypharmacyPenalty (length s4)"
    using m s b pen by (simp add: spec_mean_def spec_polypharmacyPenalty_def l2 l4)
  then show ?thesis
    unfolding spec_compositeScore_def
    by (intro min.mono Math_round_mono) simp_all
qed

lemma calculateMultipleMedicationRisk_Inr_D:
  assumes "calculateMultipleMedicationRisk db names w = Inr r"
  shows "names \<noteq> [] \<and>
    (\<exists>t risks ic. getTrimester w = Inr t \<and>
       mapE (\<lambda>medName. calculateSingleMedicationRisk db medName w) names = Inr risks \<and>
       checkPregnancyInteractions db names w = Inr ic \<and>
       medicationRisks r = risks \<and> interactionRisks r = interactions ic \<and>
       riskScore r = calculateCompositeScore risks ic)"
  using assms
  by (auto simp add: calculateMultipleMedicationRisk_def Let_def split: if_splits sum.splits)

lemma calculateMultipleMedicationRisk_Inr_I:
  assumes "names \<noteq> []" and t: "getTrimester w = Inr t"
    and "mapE (\<lambda>medName. calculateSingleMedicationRisk db medName w) names = Inr risks"
    and "checkPregnancyInteractions db names w = Inr ic"
  shows "\<exists>r. calculateMultipleMedicationRisk db names w = Inr r \<and>
       medicationRisks r = risks \<and> interactionRisks r = interactions ic \<and>
       riskScore r = calculateCompositeScore risks ic"
proof -
  have v: "validateWeek w = Inr True"
    using t by (auto simp add: getTrimester_def validateWeek_def split: sum.splits if_splits)
  show ?thesis
    using assms v by (simp add: calculateMultipleMedicationRisk_def Let_def)
qed

lemma checkPregnancyInteractions_subseq:
  assumes xs: "checkPregnancyInteractions db xs w = Inr ic4"
    and sub: "subseq ys xs" and ys: "ys \<noteq> []"
  shows "\<exists>ic2. checkPregnancyInteractions db ys w = Inr ic2 \<and>
    sum_list (map (spec_severityPenalty \<circ> i_severity) (interactions ic2)) \<le>
    sum_list (map (spec_severityPenalty \<circ> i_severity) (interactions ic4))"
proof -
  from xs obtain t where t: "getTrimester w = Inr t" and xs_ne: "xs \<noteq> []"
    using getTrimester_of_check by blast
  let ?n = "number t"
  have ok4: "\<not> ((\<exists>x\<in>set xs. individualFails db ?n x) \<or>
                (\<exists>p\<in>set (allPairs xs). pairFails db ?n p))"
    using xs unfolding checkPregnancyInteractions_char [OF t xs_ne]
    by (auto split: if_splits)
  have i4: "interactions ic4 = concat (map (individualFindings db ?n) xs) @
      concat (map (pairFindings db ?n) (allPairs xs))"
    using xs ok4 unfolding checkPregnancyInteractions_char [OF t xs_ne]
    by (auto simp add: Let_def)
  have ok2: "\<not> ((\<exists>x\<in>set ys. individualFails db ?n x) \<or>
                (\<exists>p\<in>set (allPairs ys). pairFails db ?n p))"
    using ok4 subseq_set [OF sub] subseq_set [OF subseq_allPairs, OF sub] by blast
  obtain ic2 where ic2: "checkPregnancyInteractions db ys w = Inr ic2"
    and i2: "interactions ic2 = concat (map (individualFindings db ?n) ys) @
      concat (map (pairFindings db ?n) (allPairs ys))"
    using ok2 unfolding checkPregnancyInteractions_char [OF t ys]
    by (auto simp add: Let_def)
  have "sum_list (map (spec_severityPenalty \<circ> i_severity) (interactions ic2)) \<le>
    sum_list (map (spec_severityPenalty \<circ> i_severity) (interactions ic4))"
    unfolding i2 i4 map_append sum_list_append
    by (intro add_mono penalties_subseq sub subseq_allPairs)
  with ic2 show ?thesis by blast
qed

lemma spec_compositeScore_mset:
  assumes "mset s = mset s'" and "mset v = mset v'"
  shows "spec_compositeScore s v = spec_compositeScore s' v'"
proof -
  have "set s = set s'"
    using assms(1) by (rule mset_eq_setD)
  moreover have "sum_list s = sum_list s'"
    using assms(1) by (metis sum_mset_sum_list)
  moreover have "length s = length s'"
    using assms(1) by (rule mset_eq_length)
  moreover have "sum_list (map spec_severityPenalty v) = sum_list (map spec_severityPenalty v')"
    using assms(2) by (metis mset_map sum_mset_sum_list)
  ultimately show ?thesis
    by (simp add: spec_compositeScore_def spec_mean_def)
qed

lemma calculateCompositeScore_mset:
  assumes "mset risks = mset risks'" and "mset (interactions ic) = mset (interactions ic')"
  shows "calculateCompositeScore risks ic = calculateCompositeScore risks' ic'"
proof -
  have f: "mset (filter found risks) = mset (filter found risks')"
    using assms(1) by (simp only: mset_filter)
  show ?thesis
  proof (cases "filter found risks = []")
    case True
    with f have "filter found risks' = []"
      by (metis mset_zero_iff)
    with True show ?thesis
      by (simp add: calculateCompositeScore_def)
  next
    case False
    with f have "filter found risks' \<noteq> []"
      by (metis mset_zero_iff)
    with False show ?thesis
      using f assms(2)
      by (simp add: calculateCompositeScore_spec spec_compositeScore_mset)
  qed
qed

lemma calculateMultipleMedicationRisk_swap_score:
  assumes rev: "calculateMultipleMedicationRisk db [b, a] w = Inr r"
  shows "\<exists>r'. calculateMultipleMedicationRisk db [a, b] w = Inr r' \<and>
           riskScore r' = riskScore r \<and> mset (medicationRisks r') = mset (medicationRisks r)"
proof -
  let ?f = "\<lambda>medName. calculateSingleMedicationRisk db medName w"
  from calculateMultipleMedicationRisk_Inr_D [OF rev] obtain t risks ic
    where t: "getTrimester w = Inr t"
      and risks: "mapE ?f [b, a] = Inr risks"
      and ic: "checkPregnancyInteractions db [b, a] w = Inr ic"
      and m: "medicationRisks r = risks"
      and s: "riskScore r = calculateCompositeScore risks ic"
    by blast
  let ?n = "number t"
  from risks obtain rb ra where rb: "?f b = Inr rb" and ra: "?f a = Inr ra"
    and rs: "risks = [rb, ra]"
    by (auto split: sum.splits)
  then have risks': "mapE ?f [a, b] = Inr [ra, rb]"
    by simp
  have nofail: "\<not> individualFails db ?n a" "\<not> individualFails db ?n b"
    "\<not> pairFails db ?n (b, a)"
    using ic unfolding checkPregnancyInteractions_char [OF t, of "[b, a]" db, simplified]
    by (auto split: if_splits)
  have i: "interactions ic = individualFindings db ?n b @ individualFindings db ?n a @
      pairFindings db ?n (b, a)"
    using ic nofail unfolding checkPregnancyInteractions_char [OF t, of "[b, a]" db, simplified]
    by (auto simp add: Let_def)
  obtain ic' where ic': "checkPregnancyInteractions db [a, b] w = Inr ic'"
    and i': "interactions ic' = individualFindings db ?n a @ individualFindings db ?n b @
      pairFindings db ?n (a, b)"
    using nofail pairFails_sym [of db ?n a b]
    unfolding checkPregnancyInteractions_char [OF t, of "[a, b]" db, simplified]
    by (auto simp add: Let_def)
  from calculateMultipleMedicationRisk_Inr_I [OF _ t risks' ic'] obtain r'
    where r': "calculateMultipleMedicationRisk db [a, b] w = Inr r'"
      and m': "medicationRisks r' = [ra, rb]"
      and s': "riskScore r' = calculateCompositeScore [ra, rb] ic'"
    by auto
  have "calculateCompositeScore [ra, rb] ic' = calculateCompositeScore [rb, ra] ic"
    by (rule calculateCompositeScore_mset)
      (simp_all add: i i' pairFindings_sym [of db ?n a b])
  with r' s s' rs m m' show ?thesis
    by auto
qed

lemma calculateMultipleMedicationRisk_subseq_monotone:
  assumes four: "calculateMultipleMedicationRisk db names4 w = Inr r4"
    and len4: "length names4 = 4"
    and sub: "subseq names2 names4"
    and len2: "length names2 = 2"
    and safe4: "\<forall>m\<in>set (medicationRisks r4). mr_safe m = Some True"
  shows "\<exists>r2. calculateMultipleMedicationRisk db names2 w = Inr r2 \<and>
           riskScore r2 \<le> riskScore r4"
proof -
  let ?f = "\<lambda>medName. calculateSingleMedicationRisk db medName w"
  from calculateMultipleMedicationRisk_Inr_D [OF four] obtain t risks4 ic4
    where t: "getTrimester w = Inr t"
      and risks4: "mapE ?f names4 = Inr risks4"
      and ic4: "checkPregnancyInteractions db names4 w = Inr ic4"
      and m4: "medicationRisks r4 = risks4"
      and s4: "riskScore r4 = calculateCompositeScore risks4 ic4"
    by blast
  from len2 have ne2: "names2 \<noteq> []" by auto
  from mapE_subseq [OF sub risks4] obtain risks2
    where risks2: "mapE ?f names2 = Inr risks2" and sub_r: "subseq risks2 risks4"
    by blast
  from checkPregnancyInteractions_subseq [OF ic4 sub ne2] obtain ic2
    where ic2: "checkPregnancyInteractions db names2 w = Inr ic2"
      and pen: "sum_list (map (spec_severityPenalty \<circ> i_severity) (interactions ic2)) \<le>
        sum_list (map (spec_severityPenalty \<circ> i_severity) (interactions ic4))"
    by blast
  from calculateMultipleMedicationRisk_Inr_I [OF ne2 t risks2 ic2] obtain r2
    where r2: "calculateMultipleMedicationRisk db names2 w = Inr r2"
      and s2: "riskScore r2 = calculateCompositeScore risks2 ic2"
    by blast
  have bounds4: "found m \<and> 10 \<le> riskScoreOr0 m \<and> riskScoreOr0 m \<le> 40"
    if "m \<in> set risks4" for m
  proof -
    from that mapE_Inr_D [OF risks4] obtain x where "?f x = Inr m"
      by (auto dest: list_all2_right_witness)
    moreover from that safe4 m4 have "mr_safe m = Some True" by simp
    ultimately show ?thesis by (rule calculateSingleMedicationRisk_safe)
  qed
  have l4: "length risks4 = 4"
    using mapE_Inr_D [OF risks4] len4 by (simp add: list_all2_lengthD)
  have l2: "length risks2 = 2"
    using mapE_Inr_D [OF risks2] len2 by (simp add: list_all2_lengthD)
  have f4: "filter found risks4 = risks4"
    using bounds4 by (simp add: filter_id_conv)
  have f2: "filter found risks2 = risks2"
    using bounds4 subseq_set [OF sub_r] by (auto simp add: filter_id_conv)
  from l4 have n4: "risks4 \<noteq> []" by auto
  from l2 have n2: "risks2 \<noteq> []" by auto
  have c4: "calculateCompositeScore risks4 ic4 =
      spec_compositeScore (map riskScoreOr0 risks4) (map i_severity (interactions ic4))"
    using calculateCompositeScore_spec [of risks4 ic4] f4 n4 by simp
  have c2: "calculateCompositeScore risks2 ic2 =
      spec_compositeScore (map riskScoreOr0 risks2) (map i_severity (interactions ic2))"
    using calculateCompositeScore_spec [of risks2 ic2] f2 n2 by simp
  have more: "sum_list (map riskScoreOr0 risks2) + 20 \<le> sum_list (map riskScoreOr0 risks4)"
    using sum_list_subseq_lower [OF sub_r, of 10 riskScoreOr0] bounds4 l2 l4 by simp
  have small: "sum_list (map riskScoreOr0 risks2) \<le> 80"
  proof -
    from l2 obtain a b where ab: "risks2 = [a, b]"
      by (auto simp add: length_Suc_conv numeral_2_eq_2)
    with subseq_set [OF sub_r] have "a \<in> set risks4" and "b \<in> set risks4"
      by auto
    with bounds4 [of a] bounds4 [of b] ab show ?thesis by simp
  qed
  have "spec_compositeScore (map riskScoreOr0 risks2) (map i_severity (interactions ic2)) \<le>
      spec_compositeScore (map riskScoreOr0 risks4) (map i_severity (interactions ic4))"
  proof (rule spec_compositeScore_mono)
    show "set (map riskScoreOr0 risks2) \<subseteq> set (map riskScoreOr0 risks4)"
      using subseq_set [OF sub_r] by auto
    show "sum_list (map spec_severityPenalty (map i_severity (interactions ic2))) \<le>
        sum_list (map spec_severityPenalty (map i_severity (interactions ic4)))"
      using pen by (simp add: comp_def)
  qed (simp_all add: l2 l4 more small)
  with r2 s2 s4 c2 c4 show ?thesis by auto
qed

text \<open>
  C9. At a fixed week and over a fixed store, take a list of four names for which
  \<open>calculateMultipleMedicationRisk\<close> returns with every entry marked \<open>safe\<close>, and any two of
  the four names, in either order. The call for the two names returns too, and its
  composite score is at most the composite score for the four.
\<close>

theorem calculateMultipleMedicationRisk_polypharmacy_monotone:
  assumes four: "calculateMultipleMedicationRisk db names4 w = Inr r4"
    and len4: "length names4 = 4"
    and two: "subseq names2 names4 \<or> subseq (rev names2) names4"
    and len2: "length names2 = 2"
    and safe4: "\<forall>m\<in>set (medicationRisks r4). mr_safe m = Some True"
  shows "\<exists>r2. calculateMultipleMedicationRisk db names2 w = Inr r2 \<and>
           riskScore r2 \<le> riskScore r4"
  using two
proof
  assume "subseq names2 names4"
  then show ?thesis
    using four len4 len2 safe4 by (intro calculateMultipleMedicationRisk_subseq_monotone)
next
  assume sub: "subseq (rev names2) names4"
  from len2 obtain a b where ab: "names2 = [a, b]"
    by (auto simp add: length_Suc_conv numeral_2_eq_2)
  with sub have "subseq [b, a] names4"
    by simp
  from calculateMultipleMedicationRisk_subseq_monotone [OF four len4 this _ safe4]
  obtain r where r: "calculateMultipleMedicationRisk db [b, a] w = Inr r"
    and le: "riskScore r \<le> riskScore r4"
    by auto
  from calculateMultipleMedicationRisk_swap_score [OF r] le ab show ?thesis
    by auto
qed

theorem calculateMultipleMedicationRisk_polypharmacy_monotone_witness:
  "\<exists>r4 r2.
     calculateMultipleMedicationRisk exampleStore
       [''Acetaminophen'', ''Levothyroxine'', ''Metformin'', ''Montelukast''] 30 = Inr r4 \<and>
     calculateMultipleMedicationRisk exampleStore
       [''Acetaminophen'', ''Levothyroxine''] 30 = Inr r2 \<and>
     map mr_safe (medicationRisks r4) = [Some True, Some True, Some True, Some True] \<and>
     riskScore r4 = 34 \<and> riskScore r2 \<le> riskScore r4"
proof -
  let ?n4 = "[''Acetaminophen'', ''Levothyroxine'', ''Metformin'', ''Montelukast'']"
  let ?n2 = "[''Acetaminophen'', ''Levothyroxine'']"
  let ?c4 = "calculateMultipleMedicationRisk exampleStore ?n4 30"
  have "map_sum id (\<lambda>r. (riskScore r, map mr_safe (medicationRisks r))) ?c4 =
      Inr (34, [Some True, Some True, Some True, Some True])"
    by code_simp
  then obtain r4 where r4: "?c4 = Inr r4" and s: "riskScore r4 = 34"
    and m: "map mr_safe (medicationRisks r4) = [Some True, Some True, Some True, Some True]"
    by (cases ?c4) auto
  from m have "set (map mr_safe (medicationRisks r4)) = {Some True}"
    by simp
  then have safe4: "\<forall>m\<in>set (medicationRisks r4). mr_safe m = Some True"
    by auto
  have sub: "subseq ?n2 ?n4"
    by simp
  then have two: "subseq ?n2 ?n4 \<or> subseq (rev ?n2) ?n4" ..
  from calculateMultipleMedicationRisk_polypharmacy_monotone [OF r4 _ two _ safe4]
  obtain r2 where "calculateMultipleMedicationRisk exampleStore ?n2 30 = Inr r2"
    and "riskScore r2 \<le> riskScore r4"
    by auto
  with r4 s m show ?thesis by auto
qed

end
